theory Spec2Isabelle
  imports Main "HOL-Library.Product_Lexorder"
begin

section \<open>Python values\<close>

subsection \<open>Strings\<close>

text \<open>
  A Python \<open>str\<close> is a sequence of Unicode code points, and \<open>len\<close>, \<open>in\<close>, slicing and
  the \<open>re\<close> module all count code points. A string is therefore a list of code points;
  \<open>u\<close> turns an ASCII literal into such a list, and the em dash of the question templates
  is the code point 8212.
\<close>

type_synonym pystr = "nat list"

definition u :: "string \<Rightarrow> pystr" where
  "u s = map of_char s"

definition emdash :: pystr where
  "emdash = [8212]"

definition newline :: pystr where
  "newline = [10]"

text \<open>
  What \<open>str.lower\<close>, \<open>str.isdigit\<close>, \<open>str.split\<close>, \<open>int\<close> and the classes \<open>\w\<close>, \<open>\d\<close>
  of \<open>re\<close> do on a code point outside ASCII is read from the interpreter's Unicode
  database, which is not part of the program. It is a parameter \<open>U\<close> of every function
  below: \<open>uni_class\<close> gives the class of a code point (a decimal digit with its value,
  another digit such as a superscript, another word character, white space, anything
  else) and \<open>uni_lower\<close> the lower-case expansion of the code point at a position of a
  string (it sees the string because the lower case of a capital sigma depends on its
  neighbours). On ASCII everything is fixed here.
\<close>

datatype uclass = Decimal nat | Digit | Word | Space | Other

record unicode_db =
  uni_class :: "nat \<Rightarrow> uclass"
  uni_lower :: "pystr \<Rightarrow> nat \<Rightarrow> pystr"

definition ascii_class :: "nat \<Rightarrow> uclass" where
  "ascii_class c =
    (if 48 \<le> c \<and> c \<le> 57 then Decimal (c - 48)
     else if (65 \<le> c \<and> c \<le> 90) \<or> (97 \<le> c \<and> c \<le> 122) \<or> c = 95 then Word
     else if (9 \<le> c \<and> c \<le> 13) \<or> (28 \<le> c \<and> c \<le> 32) then Space
     else Other)"

text \<open>The value of a decimal digit is below ten, whatever the database says.\<close>

definition cls :: "unicode_db \<Rightarrow> nat \<Rightarrow> uclass" where
  "cls U c =
    (if c < 128 then ascii_class c
     else (case uni_class U c of Decimal d \<Rightarrow> Decimal (d mod 10) | k \<Rightarrow> k))"

definition is_word :: "unicode_db \<Rightarrow> nat \<Rightarrow> bool" where
  "is_word U c = (case cls U c of Decimal d \<Rightarrow> True | Digit \<Rightarrow> True | Word \<Rightarrow> True
                  | Space \<Rightarrow> False | Other \<Rightarrow> False)"

definition is_decimal :: "unicode_db \<Rightarrow> nat \<Rightarrow> bool" where
  "is_decimal U c = (case cls U c of Decimal d \<Rightarrow> True | Digit \<Rightarrow> False | Word \<Rightarrow> False
                     | Space \<Rightarrow> False | Other \<Rightarrow> False)"

definition is_digit :: "unicode_db \<Rightarrow> nat \<Rightarrow> bool" where
  "is_digit U c = (case cls U c of Decimal d \<Rightarrow> True | Digit \<Rightarrow> True | Word \<Rightarrow> False
                   | Space \<Rightarrow> False | Other \<Rightarrow> False)"

definition is_space :: "unicode_db \<Rightarrow> nat \<Rightarrow> bool" where
  "is_space U c = (case cls U c of Decimal d \<Rightarrow> False | Digit \<Rightarrow> False | Word \<Rightarrow> False
                   | Space \<Rightarrow> True | Other \<Rightarrow> False)"

text \<open>\<open>s.isdigit()\<close>: at least one character, and every character a digit.\<close>

definition py_isdigit :: "unicode_db \<Rightarrow> pystr \<Rightarrow> bool" where
  "py_isdigit U s = (s \<noteq> [] \<and> list_all (is_digit U) s)"

definition ascii_lower :: "nat \<Rightarrow> nat" where
  "ascii_lower c = (if 65 \<le> c \<and> c \<le> 90 then c + 32 else c)"

text \<open>\<open>s.lower()\<close>.\<close>

definition py_lower :: "unicode_db \<Rightarrow> pystr \<Rightarrow> pystr" where
  "py_lower U s =
    concat (map (\<lambda>i. if s ! i < 128 then [ascii_lower (s ! i)] else uni_lower U s i)
                [0..<length s])"

text \<open>\<open>s.startswith(p)\<close>, \<open>s.endswith(p)\<close> and \<open>p in s\<close>.\<close>

fun startswith :: "pystr \<Rightarrow> pystr \<Rightarrow> bool" where
  "startswith s [] = True"
| "startswith [] (p # ps) = False"
| "startswith (c # cs) (p # ps) = (c = p \<and> startswith cs ps)"

definition endswith :: "pystr \<Rightarrow> pystr \<Rightarrow> bool" where
  "endswith s p = startswith (rev s) (rev p)"

fun str_in :: "pystr \<Rightarrow> pystr \<Rightarrow> bool" where
  "str_in p [] = (p = [])"
| "str_in p (c # cs) = (startswith (c # cs) p \<or> str_in p cs)"

text \<open>\<open>s.replace(a, '')\<close> for a single character \<open>a\<close>.\<close>

definition remove_char :: "nat \<Rightarrow> pystr \<Rightarrow> pystr" where
  "remove_char a s = filter (\<lambda>c. c \<noteq> a) s"

text \<open>\<open>s.split()\<close>: the maximal runs of characters that are not white space.\<close>

fun split_from :: "unicode_db \<Rightarrow> pystr \<Rightarrow> pystr \<Rightarrow> pystr list" where
  "split_from U cur [] = (if cur = [] then [] else [cur])"
| "split_from U cur (c # cs) =
    (if is_space U c then (if cur = [] then [] else [cur]) @ split_from U [] cs
     else split_from U (cur @ [c]) cs)"

definition py_split :: "unicode_db \<Rightarrow> pystr \<Rightarrow> pystr list" where
  "py_split U s = split_from U [] s"

text \<open>\<open>s.strip()\<close>.\<close>

definition py_strip :: "unicode_db \<Rightarrow> pystr \<Rightarrow> pystr" where
  "py_strip U s = rev (dropWhile (is_space U) (rev (dropWhile (is_space U) s)))"

text \<open>\<open>sep.join(parts)\<close>.\<close>

fun join :: "pystr \<Rightarrow> pystr list \<Rightarrow> pystr" where
  "join sep [] = []"
| "join sep [p] = p"
| "join sep (p # q # ps) = p @ sep @ join sep (q # ps)"

subsection \<open>Integers and their text\<close>

text \<open>\<open>str(n)\<close> for an integer.\<close>

fun digits_of :: "nat \<Rightarrow> pystr" where
  "digits_of n = (if n < 10 then [48 + n] else digits_of (n div 10) @ [48 + n mod 10])"

declare digits_of.simps [simp del]

definition py_str :: "int \<Rightarrow> pystr" where
  "py_str i = (if i < 0 then 45 # digits_of (nat (- i)) else digits_of (nat i))"

text \<open>
  \<open>int(s)\<close> of a string, base ten. The interpreter first rewrites the string to ASCII:
  an ASCII character stays, white space becomes a blank, a decimal digit becomes the
  ASCII digit of its value, and at the first other character the text is cut with a
  question mark in its place. The ASCII text is then read as: blanks, an optional sign,
  digits in groups separated by single underscores, blanks. Anything else is a
  \<open>ValueError\<close>, here \<open>None\<close>, and so is a number of more than 4300 digits.
\<close>

fun to_ascii :: "unicode_db \<Rightarrow> pystr \<Rightarrow> pystr" where
  "to_ascii U [] = []"
| "to_ascii U (c # cs) =
    (if c < 127 then c # to_ascii U cs
     else (case cls U c of
             Space \<Rightarrow> 32 # to_ascii U cs
           | Decimal d \<Rightarrow> (48 + d) # to_ascii U cs
           | Digit \<Rightarrow> [63]
           | Word \<Rightarrow> [63]
           | Other \<Rightarrow> [63]))"

definition c_isspace :: "nat \<Rightarrow> bool" where
  "c_isspace c = (c = 32 \<or> (9 \<le> c \<and> c \<le> 13))"

definition ascii_digit :: "nat \<Rightarrow> bool" where
  "ascii_digit c = (48 \<le> c \<and> c \<le> 57)"

text \<open>The digit groups: no underscore first, last, or next to another one.\<close>

fun digit_groups :: "pystr \<Rightarrow> bool" where
  "digit_groups [] = False"
| "digit_groups [c] = ascii_digit c"
| "digit_groups (c # d # cs) =
    (ascii_digit c \<and> (if d = 95 then digit_groups cs else digit_groups (d # cs)))"

definition int_max_str_digits :: nat where
  "int_max_str_digits = 4300"

definition digits_value :: "pystr \<Rightarrow> nat" where
  "digits_value ds = foldl (\<lambda>acc c. 10 * acc + (c - 48)) 0 ds"

definition parse_unsigned :: "pystr \<Rightarrow> nat option" where
  "parse_unsigned s =
    (let ds = filter ascii_digit s in
     if digit_groups s \<and> length ds \<le> int_max_str_digits then Some (digits_value ds)
     else None)"

definition py_int :: "unicode_db \<Rightarrow> pystr \<Rightarrow> int option" where
  "py_int U s =
    (let a = to_ascii U s;
         b = rev (dropWhile c_isspace (rev (dropWhile c_isspace a)))
     in case b of
          [] \<Rightarrow> None
        | c # cs \<Rightarrow>
            if c = 45 then map_option (\<lambda>n. - int n) (parse_unsigned cs)
            else if c = 43 then map_option int (parse_unsigned cs)
            else map_option int (parse_unsigned (c # cs)))"

subsection \<open>Lists and dictionaries\<close>

text \<open>\<open>xs[:k]\<close>: a negative \<open>k\<close> counts from the end.\<close>

definition slice_to :: "'a list \<Rightarrow> int \<Rightarrow> 'a list" where
  "slice_to xs k = (if 0 \<le> k then take (nat k) xs else take (nat (int (length xs) + k)) xs)"

text \<open>
  \<open>sorted(xs, key=f, reverse=True)\<close>: the sort is stable, and with \<open>reverse=True\<close> the
  list is reversed, sorted and reversed again, so that equal keys keep their order.
\<close>

definition sorted_reverse :: "('a \<Rightarrow> 'k::linorder) \<Rightarrow> 'a list \<Rightarrow> 'a list" where
  "sorted_reverse f xs = rev (sort_key f (rev xs))"

text \<open>
  A \<open>dict\<close> with string keys and values, in insertion order: \<open>d[k] = v\<close> replaces the
  value of a key that is there and appends a new key at the end.
\<close>

type_synonym pydict = "(pystr \<times> pystr) list"

definition dict_get :: "pydict \<Rightarrow> pystr \<Rightarrow> pystr option" where
  "dict_get d k = map_of d k"

definition dict_has :: "pystr \<Rightarrow> pydict \<Rightarrow> bool" where
  "dict_has k d = (map_of d k \<noteq> None)"

fun dict_set :: "pystr \<Rightarrow> pystr \<Rightarrow> pydict \<Rightarrow> pydict" where
  "dict_set k v [] = [(k, v)]"
| "dict_set k v (p # ps) = (if fst p = k then (k, v) # ps else p # dict_set k v ps)"

definition dict_keys :: "pydict \<Rightarrow> pystr list" where
  "dict_keys d = map fst d"

datatype error = ValueError | IndexError | UnboundLocalError


subsection \<open>Regular expressions\<close>

text \<open>
  The fragment of \<open>re\<close> that the program's patterns are written in: a literal, \<open>r?\<close>,
  \<open>r|s\<close>, concatenation, \<open>\b\<close> and \<open>\d\<close>. A position of the subject is the character
  before it, if any, and the text from it on. \<open>re_ends\<close> lists the positions where a
  match that starts at a given position can end, in the order in which the backtracking
  matcher tries them (\<open>?\<close> is greedy, the left alternative comes first).
  \<open>\b\<close> holds where exactly one of the two neighbours is a word character.
\<close>

datatype re = Lit pystr | Opt re | Or re re | Cat re re | WB | Dec

type_synonym pos = "nat option \<times> pystr"

definition word_before :: "unicode_db \<Rightarrow> nat option \<Rightarrow> bool" where
  "word_before U p = (case p of None \<Rightarrow> False | Some c \<Rightarrow> is_word U c)"

definition word_after :: "unicode_db \<Rightarrow> pystr \<Rightarrow> bool" where
  "word_after U rest = (case rest of [] \<Rightarrow> False | c # cs \<Rightarrow> is_word U c)"

definition at_boundary :: "unicode_db \<Rightarrow> pos \<Rightarrow> bool" where
  "at_boundary U st = (word_before U (fst st) \<noteq> word_after U (snd st))"

fun re_ends :: "unicode_db \<Rightarrow> re \<Rightarrow> pos \<Rightarrow> pos list" where
  "re_ends U (Lit s) st =
    (if startswith (snd st) s
     then [(if s = [] then fst st else Some (last s), drop (length s) (snd st))]
     else [])"
| "re_ends U (Opt r) st = re_ends U r st @ [st]"
| "re_ends U (Or r1 r2) st = re_ends U r1 st @ re_ends U r2 st"
| "re_ends U (Cat r1 r2) st = concat (map (re_ends U r2) (re_ends U r1 st))"
| "re_ends U WB st = (if at_boundary U st then [st] else [])"
| "re_ends U Dec st =
    (case snd st of
       [] \<Rightarrow> []
     | c # cs \<Rightarrow> if is_decimal U c then [(Some c, cs)] else [])"

text \<open>
  \<open>re.search(r, s)\<close>: the leftmost start with a match, and there the first match the
  matcher finds; the result is \<open>group(0)\<close>, the matched text, or \<open>None\<close>.
\<close>

fun search_from :: "unicode_db \<Rightarrow> re \<Rightarrow> nat option \<Rightarrow> pystr \<Rightarrow> pystr option" where
  "search_from U r prev [] =
    (case re_ends U r (prev, []) of [] \<Rightarrow> None | e # es \<Rightarrow> Some [])"
| "search_from U r prev (c # cs) =
    (case re_ends U r (prev, c # cs) of
       [] \<Rightarrow> search_from U r (Some c) cs
     | e # es \<Rightarrow> Some (take (length (c # cs) - length (snd e)) (c # cs)))"

definition re_search :: "unicode_db \<Rightarrow> re \<Rightarrow> pystr \<Rightarrow> pystr option" where
  "re_search U r s = search_from U r None s"

section \<open>The catalog and the tables\<close>

record movie =
  title :: pystr
  genre :: pystr
  release_year :: int
  director :: pystr
  language :: pystr
  movie_keywords :: "pystr list"

definition inception :: movie where
  "inception = \<lparr>title = u ''Inception'', genre = u ''Sci-Fi/Action'', release_year = 2010,
     director = u ''Christopher Nolan'', language = u ''English'',
     movie_keywords = [u ''dream'', u ''thriller'', u ''mind-bending'', u ''heist'']\<rparr>"

definition parasite :: movie where
  "parasite = \<lparr>title = u ''Parasite'', genre = u ''Drama/Thriller'', release_year = 2019,
     director = u ''Bong Joon Ho'', language = u ''Korean'',
     movie_keywords = [u ''family'', u ''social commentary'', u ''dark comedy'', u ''serious'']\<rparr>"

definition the_avengers :: movie where
  "the_avengers = \<lparr>title = u ''The Avengers'', genre = u ''Sci-Fi/Action'', release_year = 2012,
     director = u ''Joss Whedon'', language = u ''English'',
     movie_keywords = [u ''superhero'', u ''Marvel'', u ''team-up'', u ''blockbuster'']\<rparr>"

definition la_la_land :: movie where
  "la_la_land = \<lparr>title = u ''La La Land'', genre = u ''Musical/Romance'', release_year = 2016,
     director = u ''Damien Chazelle'', language = u ''English'',
     movie_keywords = [u ''music'', u ''love'', u ''dream'', u ''emotional'']\<rparr>"

definition the_dark_knight :: movie where
  "the_dark_knight = \<lparr>title = u ''The Dark Knight'', genre = u ''Action/Drama'',
     release_year = 2008, director = u ''Christopher Nolan'', language = u ''English'',
     movie_keywords = [u ''superhero'', u ''DC'', u ''philosophical'', u ''serious'', u ''gritty'']\<rparr>"

definition MOVIE_DB :: "movie list" where
  "MOVIE_DB = [inception, parasite, the_avengers, la_la_land, the_dark_knight]"

text \<open>The keys of \<open>DEFINED_SLOTS\<close>, in the order of the dictionary.\<close>

definition DEFINED_SLOTS :: "pystr list" where
  "DEFINED_SLOTS =
    [u ''genre'', u ''mood'', u ''release_era'', u ''director'', u ''language'', u ''runtime'']"

definition GENRE_SYNONYMS :: "(pystr \<times> pystr) list" where
  "GENRE_SYNONYMS =
    [(u ''sci-fi'', u ''Sci-Fi''),
     (u ''science fiction'', u ''Sci-Fi''),
     (u ''science-fiction'', u ''Sci-Fi''),
     (u ''action'', u ''Action''),
     (u ''drama'', u ''Drama''),
     (u ''romance'', u ''Romance''),
     (u ''musical'', u ''Musical''),
     (u ''comedy'', u ''Comedy''),
     (u ''thriller'', u ''Thriller''),
     (u ''superhero'', u ''Sci-Fi/Action'')]"

definition MOOD_KEYWORDS :: "(pystr \<times> pystr list) list" where
  "MOOD_KEYWORDS =
    [(u ''fun'', [u ''fun'', u ''light'', u ''funny'', u ''laugh'', u ''comedic'',
                  u ''entertaining'']),
     (u ''serious'', [u ''serious'', u ''dark'', u ''grim'', u ''heavy'', u ''thoughtful'',
                      u ''dramatic'']),
     (u ''emotional'', [u ''emotional'', u ''touching'', u ''tear'', u ''sad'', u ''romantic'']),
     (u ''mind-bending'', [u ''mind-bending'', u ''twisty'', u ''puzzling'', u ''complex'']),
     (u ''blockbuster'', [u ''blockbuster'', u ''epic'', u ''big'', u ''spectacle''])]"

text \<open>\<open>range(lo, hi)\<close> is the pair \<open>(lo, hi)\<close>.\<close>

definition ERA_KEYWORDS :: "(pystr \<times> int \<times> int) list" where
  "ERA_KEYWORDS =
    [(u ''1990s'', 1990, 2000),
     (u ''2000s'', 2000, 2010),
     (u ''2010s'', 2010, 2020),
     (u ''2020s'', 2020, 2030),
     (u ''classic'', 1900, 1990)]"

definition in_range :: "int \<Rightarrow> int \<times> int \<Rightarrow> bool" where
  "in_range y r = (fst r \<le> y \<and> y < snd r)"

section \<open>Task 2: slot identification\<close>

text \<open>\<open>r'\b' + re.escape(key) + r'\b'\<close>\<close>

definition word_pattern :: "pystr \<Rightarrow> re" where
  "word_pattern key = Cat WB (Cat (Lit key) WB)"

text \<open>\<open>r'\b(19|20)\d{2}\b'\<close>\<close>

definition year_pattern :: re where
  "year_pattern = Cat WB (Cat (Or (Lit (u ''19'')) (Lit (u ''20''))) (Cat Dec (Cat Dec WB)))"

text \<open>\<open>r'\b(short|under ?1 ?hr|< ?60|min)\b'\<close>\<close>

definition short_pattern :: re where
  "short_pattern =
    Cat WB (Cat
      (Or (Lit (u ''short''))
      (Or (Cat (Lit (u ''under'')) (Cat (Opt (Lit (u '' ''))) (Cat (Lit (u ''1''))
             (Cat (Opt (Lit (u '' ''))) (Lit (u ''hr''))))))
      (Or (Cat (Lit (u ''<'')) (Cat (Opt (Lit (u '' ''))) (Lit (u ''60''))))
          (Lit (u ''min'')))))
      WB)"

text \<open>\<open>r'\b(long|epic|over ?2 ?hr|> ?120|min)\b'\<close>\<close>

definition long_pattern :: re where
  "long_pattern =
    Cat WB (Cat
      (Or (Lit (u ''long''))
      (Or (Lit (u ''epic''))
      (Or (Cat (Lit (u ''over'')) (Cat (Opt (Lit (u '' ''))) (Cat (Lit (u ''2''))
             (Cat (Opt (Lit (u '' ''))) (Lit (u ''hr''))))))
      (Or (Cat (Lit (u ''>'')) (Cat (Opt (Lit (u '' ''))) (Lit (u ''120''))))
          (Lit (u ''min''))))))
      WB)"

text \<open>
  \<open>identify_slots\<close> runs six detection blocks in sequence over the dictionary \<open>filled\<close>;
  each block is a definition of its own here. A loop
  \<open>for ...: if ...: filled[...] = ...; break\<close> takes the first entry of its table that
  matches, which is \<open>find\<close>.
\<close>

definition detect_genre :: "unicode_db \<Rightarrow> pystr \<Rightarrow> pydict \<Rightarrow> pydict" where
  "detect_genre U text filled =
    (case find (\<lambda>(key, val). re_search U (word_pattern key) text \<noteq> None) GENRE_SYNONYMS of
       Some (key, val) \<Rightarrow> dict_set (u ''genre'') val filled
     | None \<Rightarrow> filled)"

definition detect_mood :: "pystr \<Rightarrow> pydict \<Rightarrow> pydict" where
  "detect_mood text filled =
    (case find (\<lambda>(mood, kw_list). list_ex (\<lambda>kw. str_in kw text) kw_list) MOOD_KEYWORDS of
       Some (mood, kw_list) \<Rightarrow> dict_set (u ''mood'') mood filled
     | None \<Rightarrow> filled)"

text \<open>\<open>director_lower.split()[-1]\<close> is an \<open>IndexError\<close> on a name without a word.\<close>

fun director_loop :: "unicode_db \<Rightarrow> pystr \<Rightarrow> movie list \<Rightarrow> error + pystr option" where
  "director_loop U text [] = Inr None"
| "director_loop U text (m # ms) =
    (let director_lower = py_lower U (director m) in
     case py_split U director_lower of
       [] \<Rightarrow> Inl IndexError
     | w # ws \<Rightarrow>
         (let last_name = last (w # ws) in
          if str_in last_name text \<or> str_in director_lower text then Inr (Some (director m))
          else director_loop U text ms))"

definition detect_director :: "unicode_db \<Rightarrow> pystr \<Rightarrow> pydict \<Rightarrow> error + pydict" where
  "detect_director U text filled =
    (case director_loop U text MOVIE_DB of
       Inl e \<Rightarrow> Inl e
     | Inr None \<Rightarrow> Inr filled
     | Inr (Some d) \<Rightarrow> Inr (dict_set (u ''director'') d filled))"

text \<open>
  The year is searched in the input as given, not in the lower-case text; \<open>int\<close> of the
  matched text can raise \<open>ValueError\<close>. Without a year, the era labels are tried, each
  also with every \<open>s\<close> removed (\<open>era.replace('s','')\<close>).
\<close>

definition detect_release_era ::
  "unicode_db \<Rightarrow> pystr \<Rightarrow> pystr \<Rightarrow> pydict \<Rightarrow> error + pydict" where
  "detect_release_era U user_input text filled =
    (case re_search U year_pattern user_input of
       Some year_match \<Rightarrow>
         (case py_int U year_match of
            None \<Rightarrow> Inl ValueError
          | Some y \<Rightarrow> Inr (dict_set (u ''release_era'') (py_str y) filled))
     | None \<Rightarrow>
         (case find (\<lambda>(era, r). str_in (remove_char 115 era) text \<or> str_in era text)
                 ERA_KEYWORDS of
            Some (era, r) \<Rightarrow> Inr (dict_set (u ''release_era'') era filled)
          | None \<Rightarrow> Inr filled))"

definition detect_language :: "unicode_db \<Rightarrow> pystr \<Rightarrow> pydict \<Rightarrow> pydict" where
  "detect_language U text filled =
    (let filled =
           (case find (\<lambda>m. let lang = py_lower U (language m) in lang \<noteq> [] \<and> str_in lang text)
                   MOVIE_DB of
              Some m \<Rightarrow> dict_set (u ''language'') (language m) filled
            | None \<Rightarrow> filled);
         filled = (if str_in (u ''korean'') text
                   then dict_set (u ''language'') (u ''Korean'') filled else filled);
         filled = (if str_in (u ''english'') text
                   then dict_set (u ''language'') (u ''English'') filled else filled)
     in filled)"

definition detect_runtime :: "unicode_db \<Rightarrow> pystr \<Rightarrow> pydict \<Rightarrow> pydict" where
  "detect_runtime U text filled =
    (let filled = (if re_search U short_pattern text \<noteq> None
                   then dict_set (u ''runtime'') (u ''short'') filled else filled);
         filled = (if re_search U long_pattern text \<noteq> None
                   then dict_set (u ''runtime'') (u ''long'') filled else filled)
     in filled)"

definition identify_slots :: "unicode_db \<Rightarrow> pystr \<Rightarrow> error + (pydict \<times> pystr list)" where
  "identify_slots U user_input =
    (let text = py_lower U user_input;
         filled = [];
         filled = detect_genre U text filled;
         filled = detect_mood text filled
     in case detect_director U text filled of
          Inl e \<Rightarrow> Inl e
        | Inr filled \<Rightarrow>
            (case detect_release_era U user_input text filled of
               Inl e \<Rightarrow> Inl e
             | Inr filled \<Rightarrow>
                 (let filled = detect_language U text filled;
                      filled = detect_runtime U text filled;
                      missing = filter (\<lambda>s. \<not> dict_has s filled) DEFINED_SLOTS
                  in Inr (filled, missing))))"

section \<open>Task 2: scoring and retrieval\<close>

text \<open>
  The release-era block of the scoring function. When \<open>int(val)\<close> raises, the handler
  reads a label such as \<open>2010s\<close>: \<open>int(val[:4])\<close> is called when the first four
  characters satisfy \<open>isdigit\<close>, and a \<open>ValueError\<close> raised there, inside the handler,
  is not caught.
\<close>

definition score_release_era :: "unicode_db \<Rightarrow> movie \<Rightarrow> pystr \<Rightarrow> error + int" where
  "score_release_era U movie val =
    (case py_int U val of
       Some y \<Rightarrow>
         if release_year movie = y then Inr 3
         else if release_year movie div 10 = y div 10 then Inr 2
         else Inr 0
     | None \<Rightarrow>
         if endswith val (u ''s'') then
           (if 4 \<le> length val \<and> py_isdigit U (take 4 val) then
              (case py_int U (take 4 val) of
                 None \<Rightarrow> Inl ValueError
               | Some decade \<Rightarrow>
                   if decade \<noteq> 0 \<and>
                      (case map_of ERA_KEYWORDS val of
                         Some r \<Rightarrow> in_range (release_year movie) r
                       | None \<Rightarrow> False)
                   then Inr 2 else Inr 0)
            else Inr 0)
         else Inr 0)"

definition score_mood :: "unicode_db \<Rightarrow> movie \<Rightarrow> pystr \<Rightarrow> int" where
  "score_mood U movie mood =
    int (length (filter
          (\<lambda>kw. str_in mood (py_lower U kw) \<or>
                list_ex (\<lambda>m. str_in m (py_lower U kw)) (py_split U mood))
          (movie_keywords movie)))
    + (if str_in mood (py_lower U (title movie)) then 1 else 0)"

definition score_movie_against_slots :: "unicode_db \<Rightarrow> movie \<Rightarrow> pydict \<Rightarrow> error + int" where
  "score_movie_against_slots U movie filled_slots =
    (let score = 0;
         score = (case dict_get filled_slots (u ''genre'') of
                    Some g \<Rightarrow> if str_in (py_lower U g) (py_lower U (genre movie))
                              then score + 3 else score
                  | None \<Rightarrow> score);
         score = (case dict_get filled_slots (u ''director'') of
                    Some d \<Rightarrow> if py_lower U d = py_lower U (director movie)
                              then score + 4 else score
                  | None \<Rightarrow> score);
         score = (case dict_get filled_slots (u ''language'') of
                    Some l \<Rightarrow> if py_lower U (language movie) = py_lower U l
                              then score + 2 else score
                  | None \<Rightarrow> score)
     in case (case dict_get filled_slots (u ''release_era'') of
                Some val \<Rightarrow> score_release_era U movie val
              | None \<Rightarrow> Inr 0) of
          Inl e \<Rightarrow> Inl e
        | Inr era_points \<Rightarrow>
            (let score = score + era_points;
                 score = (case dict_get filled_slots (u ''mood'') of
                            Some mood \<Rightarrow> score + score_mood U movie mood
                          | None \<Rightarrow> score)
             in Inr score))"

text \<open>The loop that fills \<open>scored\<close>; it stops at the first movie whose scoring raises.\<close>

fun score_all :: "unicode_db \<Rightarrow> pydict \<Rightarrow> movie list \<Rightarrow> error + (int \<times> movie) list" where
  "score_all U filled_slots [] = Inr []"
| "score_all U filled_slots (movie # ms) =
    (case score_movie_against_slots U movie filled_slots of
       Inl e \<Rightarrow> Inl e
     | Inr score \<Rightarrow>
         (case score_all U filled_slots ms of
            Inl e \<Rightarrow> Inl e
          | Inr scored \<Rightarrow> Inr ((score, movie) # scored)))"

definition retrieve_candidates :: "unicode_db \<Rightarrow> pydict \<Rightarrow> int \<Rightarrow> error + movie list" where
  "retrieve_candidates U filled_slots top_k =
    (if filled_slots = [] then Inr (slice_to MOVIE_DB top_k)
     else
       case score_all U filled_slots MOVIE_DB of
         Inl e \<Rightarrow> Inl e
       | Inr scored \<Rightarrow>
           (let scored_sorted = sorted_reverse (\<lambda>x. (fst x, release_year (snd x))) scored;
                top = slice_to (map snd (filter (\<lambda>x. 0 < fst x) scored_sorted)) top_k;
                top = (if top = [] then slice_to (sorted_reverse release_year MOVIE_DB) top_k
                       else top)
            in Inr top))"

section \<open>Task 3: the prompt\<close>

definition SYSTEM_PROMPT :: pystr where
  "SYSTEM_PROMPT =
    newline @
    u ''You are a friendly and knowledgeable movie expert. You ask smart, concise clarifying questions that help users get a tailored movie suggestion.'' @ newline @
    u ''Constraints:'' @ newline @
    u ''- Always ask at least one clarifying question before recommending a final movie title.'' @ newline @
    u ''- Keep tone warm, brief and professional.'' @ newline @
    u ''- When possible, prefer single, specific clarifying questions that are easy to answer (yes/no or short phrases).'' @ newline"

definition FEW_SHOT_EXAMPLES :: "(pystr \<times> pystr) list" where
  "FEW_SHOT_EXAMPLES =
    [(u ''I liked the new Nolan movie.'',
      u ''Christopher Nolan's films are fantastic! To help me narrow it down, are you in the mood for a more thoughtful thriller (e.g., Inception) or a darker, gritty superhero drama (e.g., The Dark Knight)?''),
     (u ''Something romantic but upbeat.'',
      u ''Nice '' @ emdash @ u '' do you prefer musicals (songs integrated in story) or romantic comedies (lighthearted, modern)? A one-word answer like 'musical' or 'rom-com' is perfect.'')]"

definition format_candidates_for_prompt :: "movie list \<Rightarrow> pystr" where
  "format_candidates_for_prompt candidates =
    (if candidates = [] then u ''No strong candidates found in the local DB.''
     else join newline
       (map (\<lambda>c. u ''- '' @ title c @ u '' ('' @ py_str (release_year c) @ u '') '' @ emdash @
                 u '' genre: '' @ genre c @ u '', director: '' @ director c)
            candidates))"

definition INSTRUCTION :: pystr where
  "INSTRUCTION =
    newline @
    u ''INSTRUCTION (A): You are the assistant. Based on the information above, ask exactly one concise, specific clarifying question that will most improve the recommendation. The question should be easy to answer (one or two words ideally). Do NOT recommend a movie yet. If all slots are already thoroughly filled, ask for a final small confirmation (e.g., 'Do you prefer something gritty or light?').''"

definition build_dynamic_prompt :: "unicode_db \<Rightarrow> pystr \<Rightarrow> pydict \<Rightarrow> movie list \<Rightarrow> pystr" where
  "build_dynamic_prompt U user_input filled_slots candidates =
    (let prompt_parts = [py_strip U SYSTEM_PROMPT];
         prompt_parts = prompt_parts @ [newline @ u ''FEW-SHOT EXAMPLES:''];
         prompt_parts = prompt_parts @
           map (\<lambda>ex. u ''User: '' @ fst ex @ newline @ u ''Assistant: '' @ snd ex @ newline)
               FEW_SHOT_EXAMPLES;
         prompt_parts = prompt_parts @ [u ''USER REQUEST:''];
         prompt_parts = prompt_parts @ [py_strip U user_input];
         prompt_parts = prompt_parts @ [u ''IDENTIFIED SLOTS:''];
         prompt_parts = prompt_parts @
           (if filled_slots \<noteq> [] then map (\<lambda>kv. u ''- '' @ fst kv @ u '': '' @ snd kv) filled_slots
            else [u ''- (none identified)'']);
         prompt_parts = prompt_parts @ [u ''RETRIEVED CANDIDATES (R):''];
         prompt_parts = prompt_parts @ [format_candidates_for_prompt candidates];
         prompt_parts = prompt_parts @ [INSTRUCTION]
     in join (newline @ newline) prompt_parts)"

section \<open>The clarifying question\<close>

definition question_genre :: pystr where
  "question_genre = u ''Sure '' @ emdash @
     u '' what genre are you in the mood for? (e.g., Action, Drama, Comedy, Romance)''"

definition question_mood :: pystr where
  "question_mood = u ''Would you like something more light/fun or more serious/intense?''"

definition question_release_era :: pystr where
  "question_release_era = u ''Any preference for release era '' @ emdash @
     u '' classic, 1990s, 2000s, 2010s, or recent?''"

definition question_director :: pystr where
  "question_director =
     u ''Do you prefer a specific director or filmmaker? If yes, name them (e.g., Nolan).''"

definition question_language :: pystr where
  "question_language = u ''Do you have a preferred language? (e.g., English, Korean, Spanish)''"

definition question_runtime :: pystr where
  "question_runtime =
     u ''Do you prefer a short (<100 min), medium (100-140 min), or long (>140 min) movie?''"

definition question_action :: pystr where
  "question_action = u ''Great '' @ emdash @
     u '' for action, do you want something gritty/realistic or a fun blockbuster?''"

definition question_same_director :: "pystr \<Rightarrow> pystr" where
  "question_same_director d =
     u ''Do you want something by '' @ d @ u '' specifically, or films with a similar tone?''"

definition question_mood_strength :: "pystr \<Rightarrow> pystr" where
  "question_mood_strength m =
     u ''You mentioned '' @ [39] @ m @ [39] @
     u ''. Would you prefer a milder or a stronger version of that mood?''"

definition question_newer :: pystr where
  "question_newer = u ''Thanks '' @ emdash @
     u '' one quick check: do you prefer newer releases or are older films okay?''"

definition question_starter :: pystr where
  "question_starter = u ''Got it '' @ emdash @
     u '' to start, what type of movie would you like (genre, mood, or director)?''"

definition priority :: "pystr list" where
  "priority =
    [u ''genre'', u ''mood'', u ''release_era'', u ''director'', u ''language'', u ''runtime'']"

text \<open>
  The second half of \<open>get_ai_response\<close>, once there is no missing slot (or the slot to
  ask is none of the six names): the confirmation question from the filled slots, and
  the starter question when nothing is filled.
\<close>

definition confirmation_question :: "pydict \<Rightarrow> pystr" where
  "confirmation_question filled_slots =
    (if filled_slots \<noteq> [] then
       (if (case dict_get filled_slots (u ''genre'') of
              Some g \<Rightarrow> g \<noteq> [] \<and> str_in (u ''Action'') g
            | None \<Rightarrow> False)
        then question_action
        else case dict_get filled_slots (u ''director'') of
               Some d \<Rightarrow> question_same_director d
             | None \<Rightarrow>
                 (case dict_get filled_slots (u ''mood'') of
                    Some m \<Rightarrow> question_mood_strength m
                  | None \<Rightarrow> question_newer))
     else question_starter)"

text \<open>
  The rule-based choice of the question (step 4 of \<open>get_ai_response\<close>). When the loop
  over \<open>priority\<close> assigns nothing, reading \<open>slot_to_ask\<close> is an \<open>UnboundLocalError\<close>.
\<close>

definition choose_question :: "pydict \<Rightarrow> pystr list \<Rightarrow> error + pystr" where
  "choose_question filled_slots missing_slots =
    (if missing_slots \<noteq> [] then
       (case find (\<lambda>p. p \<in> set missing_slots) priority of
          None \<Rightarrow> Inl UnboundLocalError
        | Some slot_to_ask \<Rightarrow>
            if slot_to_ask = u ''genre'' then Inr question_genre
            else if slot_to_ask = u ''mood'' then Inr question_mood
            else if slot_to_ask = u ''release_era'' then Inr question_release_era
            else if slot_to_ask = u ''director'' then Inr question_director
            else if slot_to_ask = u ''language'' then Inr question_language
            else if slot_to_ask = u ''runtime'' then Inr question_runtime
            else Inr (confirmation_question filled_slots))
     else Inr (confirmation_question filled_slots))"

definition get_ai_response :: "unicode_db \<Rightarrow> pystr \<Rightarrow> error + pystr" where
  "get_ai_response U user_input =
    (case identify_slots U user_input of
       Inl e \<Rightarrow> Inl e
     | Inr (filled_slots, missing_slots) \<Rightarrow>
         (case retrieve_candidates U filled_slots 3 of
            Inl e \<Rightarrow> Inl e
          | Inr candidates \<Rightarrow>
              (let final_prompt = build_dynamic_prompt U user_input filled_slots candidates
               in choose_question filled_slots missing_slots)))"

section \<open>A Unicode database for concrete runs\<close>

text \<open>
  The interpreter's database on the code points 128 to 255 (Latin-1): the superscripts
  two, three and one are digits without a decimal value; the letters, the ordinal
  indicators, the micro sign and the three fractions are word characters; the next-line
  control and the no-break space are white space; a capital letter is 32 below its
  lower case. Above 255 nothing is classified, which no run below reaches.
\<close>

definition latin1_class :: "nat \<Rightarrow> uclass" where
  "latin1_class c =
    (if c = 178 \<or> c = 179 \<or> c = 185 then Digit
     else if c = 133 \<or> c = 160 then Space
     else if c = 170 \<or> c = 181 \<or> c = 186 \<or> (188 \<le> c \<and> c \<le> 190) \<or>
             (192 \<le> c \<and> c \<le> 255 \<and> c \<noteq> 215 \<and> c \<noteq> 247) then Word
     else Other)"

definition latin1_lower :: "pystr \<Rightarrow> nat \<Rightarrow> pystr" where
  "latin1_lower s i =
    (if 192 \<le> s ! i \<and> s ! i \<le> 222 \<and> s ! i \<noteq> 215 then [s ! i + 32] else [s ! i])"

definition latin1_db :: unicode_db where
  "latin1_db = \<lparr>uni_class = latin1_class, uni_lower = latin1_lower\<rparr>"

section \<open>Predicates on the release-era value\<close>

text \<open>
  The values that \<open>identify_slots\<close> stores under \<open>release_era\<close>: the text of an integer
  or one of the era labels.
\<close>

definition safe_era :: "pystr \<Rightarrow> bool" where
  "safe_era val \<longleftrightarrow> (\<exists>y. val = py_str y) \<or> val \<in> fst ` set ERA_KEYWORDS"

definition era_ok :: "pydict \<Rightarrow> bool" where
  "era_ok f \<longleftrightarrow> (\<forall>val. dict_get f (u ''release_era'') = Some val \<longrightarrow> safe_era val)"

text \<open>
  The dictionaries on which the release-era block of the scoring function raises: the
  value is no integer, ends in \<open>s\<close>, and its first four characters pass \<open>isdigit\<close> but
  are no integer either.
\<close>

definition era_raises :: "unicode_db \<Rightarrow> pydict \<Rightarrow> bool" where
  "era_raises U filled_slots =
    (case dict_get filled_slots (u ''release_era'') of
       None \<Rightarrow> False
     | Some val \<Rightarrow> py_int U val = None \<and> endswith val (u ''s'') \<and> 4 \<le> length val \<and>
                   py_isdigit U (take 4 val) \<and> py_int U (take 4 val) = None)"

section \<open>Properties of the Python values\<close>

subsection \<open>Dictionaries\<close>

lemma dict_keys_set: "set (dict_keys (dict_set k v d)) = insert k (set (dict_keys d))"
  by (induction d) (auto simp: dict_keys_def)

lemma dict_get_set: "dict_get (dict_set k v d) k' = (if k' = k then Some v else dict_get d k')"
  by (induction d) (auto simp: dict_get_def)

lemma dict_has_keys: "dict_has k d \<longleftrightarrow> k \<in> set (dict_keys d)"
  by (simp add: dict_has_def dict_keys_def map_of_eq_None_iff)

lemma dict_has_get: "dict_has k d \<longleftrightarrow> dict_get d k \<noteq> None"
  by (simp add: dict_has_def dict_get_def)

lemma dict_set_nonempty: "dict_set k v d \<noteq> []"
  by (cases d) auto

subsection \<open>Strings\<close>

lemma startswith_Cons: "startswith s (p # ps) \<longleftrightarrow> (\<exists>cs. s = p # cs \<and> startswith cs ps)"
  by (cases s) auto

lemma startswith_append: "startswith (p @ s) p"
  by (induction p) auto

lemma str_in_append: "str_in p (a @ p @ b)"
proof (induction a)
  case Nil
  show ?case by (cases "p @ b") (use startswith_append [of p b] in auto)
next
  case (Cons c a)
  then show ?case by simp
qed

lemma str_in_single: "str_in [c] s \<longleftrightarrow> c \<in> set s"
  by (induction s) (auto simp: startswith_Cons)

lemma endswith_single: "endswith s [c] \<longleftrightarrow> s \<noteq> [] \<and> last s = c"
  by (cases s rule: rev_cases) (auto simp: endswith_def)

lemma digits_of_last: "digits_of n \<noteq> [] \<and> last (digits_of n) = 48 + n mod 10"
  by (subst digits_of.simps, subst (2) digits_of.simps) auto

lemma py_str_not_label: "\<not> endswith (py_str y) (u ''s'')"
  using digits_of_last [of "nat y"] digits_of_last [of "nat (- y)"]
  by (auto simp: u_def endswith_single py_str_def)

subsection \<open>Regular expressions and the year\<close>

lemma search_from_Some:
  "search_from U r prev s = Some g \<Longrightarrow>
   \<exists>p rest e. e \<in> set (re_ends U r (p, rest)) \<and> g = take (length rest - length (snd e)) rest"
proof (induction s arbitrary: prev)
  case Nil
  then obtain e es where "re_ends U r (prev, []) = e # es" and "g = []"
    by (cases "re_ends U r (prev, [])") auto
  then have "e \<in> set (re_ends U r (prev, []))" "g = take (length ([]::pystr) - length (snd e)) []"
    by auto
  then show ?case by blast
next
  case (Cons c cs)
  show ?case
  proof (cases "re_ends U r (prev, c # cs)")
    case Nil
    with Cons show ?thesis by simp
  next
    case (Cons e es)
    with Cons.prems have "g = take (length (c # cs) - length (snd e)) (c # cs)" by simp
    moreover have "e \<in> set (re_ends U r (prev, c # cs))" using Cons by simp
    ultimately show ?thesis by blast
  qed
qed

lemma year_ends:
  "e \<in> set (re_ends U year_pattern (p, rest)) \<Longrightarrow>
   \<exists>a b c d rest'. rest = a # b # c # d # rest' \<and> (a = 49 \<and> b = 57 \<or> a = 50 \<and> b = 48) \<and>
      is_decimal U c \<and> is_decimal U d \<and> e = (Some d, rest')"
  by (auto simp: year_pattern_def u_def startswith_Cons split: if_splits list.splits)

lemma year_match_shape:
  assumes "re_search U year_pattern s = Some g"
  shows "\<exists>a b c d. g = [a, b, c, d] \<and> (a = 49 \<and> b = 57 \<or> a = 50 \<and> b = 48) \<and>
      is_decimal U c \<and> is_decimal U d"
proof -
  from assms obtain p rest e where e: "e \<in> set (re_ends U year_pattern (p, rest))"
    and g: "g = take (length rest - length (snd e)) rest"
    unfolding re_search_def by (blast dest: search_from_Some)
  from year_ends [OF e] g show ?thesis by auto
qed

lemma decimal_to_ascii:
  assumes "is_decimal U c"
  shows "\<exists>k. to_ascii U (c # cs) = k # to_ascii U cs \<and> ascii_digit k"
proof (cases "c < 127")
  case True
  with assms show ?thesis
    by (auto simp: is_decimal_def cls_def ascii_class_def ascii_digit_def split: if_splits)
next
  case False
  with assms show ?thesis
    by (cases "c = 127")
       (auto simp: is_decimal_def cls_def ascii_class_def ascii_digit_def
             split: if_splits uclass.splits)
qed

lemma py_int_year:
  assumes "a = 49 \<and> b = 57 \<or> a = 50 \<and> b = 48" "is_decimal U c" "is_decimal U d"
  shows "\<exists>y. py_int U [a, b, c, d] = Some y"
proof -
  from decimal_to_ascii [OF assms(3), of "[]"] obtain k2
    where k2: "to_ascii U [d] = [k2]" "ascii_digit k2" by auto
  from decimal_to_ascii [OF assms(2), of "[d]"] k2 obtain k1
    where k1: "to_ascii U [c, d] = [k1, k2]" "ascii_digit k1" by auto
  have "to_ascii U [a, b, c, d] = [a, b, k1, k2]" using assms(1) k1 by auto
  then show ?thesis using assms(1) k1 k2
    by (auto simp: py_int_def c_isspace_def parse_unsigned_def ascii_digit_def
          int_max_str_digits_def)
qed


lemma u_eq_iff [simp]: "u a = u b \<longleftrightarrow> a = b"
proof -
  have "inj (of_char :: char \<Rightarrow> nat)" by (rule injI) simp
  then show ?thesis unfolding u_def by (rule inj_map_eq_map)
qed

lemma find_SomeD: "find P xs = Some x \<Longrightarrow> x \<in> set xs \<and> P x"
  by (induction xs) (auto split: if_splits)

section \<open>Slot identification never raises\<close>

lemma split_inception: "py_split U (py_lower U (director inception)) \<noteq> []"
  by code_simp
lemma split_parasite: "py_split U (py_lower U (director parasite)) \<noteq> []"
  by code_simp
lemma split_the_avengers: "py_split U (py_lower U (director the_avengers)) \<noteq> []"
  by code_simp
lemma split_la_la_land: "py_split U (py_lower U (director la_la_land)) \<noteq> []"
  by code_simp
lemma split_the_dark_knight: "py_split U (py_lower U (director the_dark_knight)) \<noteq> []"
  by code_simp

lemma director_names_split:
  "m \<in> set MOVIE_DB \<Longrightarrow> py_split U (py_lower U (director m)) \<noteq> []"
  using split_inception split_parasite split_the_avengers split_la_la_land split_the_dark_knight
  by (auto simp: MOVIE_DB_def)

lemma director_loop_Inr:
  "\<forall>m\<in>set ms. py_split U (py_lower U (director m)) \<noteq> [] \<Longrightarrow>
   \<exists>r. director_loop U t ms = Inr r"
  by (induction ms) (auto simp: Let_def split: list.splits)

lemma detect_director_Inr:
  "\<exists>f. detect_director U t filled = Inr f \<and>
       (f = filled \<or> (\<exists>d. f = dict_set (u ''director'') d filled))"
proof -
  obtain r where "director_loop U t MOVIE_DB = Inr r"
    using director_loop_Inr [of MOVIE_DB U t] director_names_split by blast
  then show ?thesis by (cases r) (auto simp: detect_director_def)
qed

lemma detect_release_era_Inr:
  "\<exists>f. detect_release_era U user_input t filled = Inr f \<and>
       (f = filled \<or> (\<exists>val. f = dict_set (u ''release_era'') val filled \<and> safe_era val))"
proof (cases "re_search U year_pattern user_input")
  case None
  show ?thesis
  proof (cases "find (\<lambda>(era, r). str_in (remove_char 115 era) t \<or> str_in era t) ERA_KEYWORDS")
    case None
    with \<open>re_search U year_pattern user_input = None\<close> show ?thesis
      by (simp add: detect_release_era_def)
  next
    case (Some er)
    then have "er \<in> set ERA_KEYWORDS" by (auto dest: find_SomeD)
    then have "safe_era (fst er)" by (auto simp: safe_era_def)
    with Some \<open>re_search U year_pattern user_input = None\<close> show ?thesis
      by (auto simp: detect_release_era_def split: prod.splits)
  qed
next
  case (Some g)
  from year_match_shape [OF Some] py_int_year obtain y where "py_int U g = Some y"
    by metis
  moreover have "safe_era (py_str y)" by (auto simp: safe_era_def)
  ultimately show ?thesis using Some by (auto simp: detect_release_era_def)
qed

lemma identify_slots_blocks:
  obtains f2 f3 where
    "detect_director U (py_lower U s) (detect_mood (py_lower U s) (detect_genre U (py_lower U s) [])) = Inr f2"
    "detect_release_era U s (py_lower U s) f2 = Inr f3"
    "identify_slots U s =
       Inr (detect_runtime U (py_lower U s) (detect_language U (py_lower U s) f3),
            filter (\<lambda>k. \<not> dict_has k (detect_runtime U (py_lower U s) (detect_language U (py_lower U s) f3)))
                   DEFINED_SLOTS)"
proof -
  obtain f2 where f2: "detect_director U (py_lower U s)
      (detect_mood (py_lower U s) (detect_genre U (py_lower U s) [])) = Inr f2"
    using detect_director_Inr by blast
  obtain f3 where f3: "detect_release_era U s (py_lower U s) f2 = Inr f3"
    using detect_release_era_Inr by blast
  from f2 f3 have "identify_slots U s =
       Inr (detect_runtime U (py_lower U s) (detect_language U (py_lower U s) f3),
            filter (\<lambda>k. \<not> dict_has k (detect_runtime U (py_lower U s) (detect_language U (py_lower U s) f3)))
                   DEFINED_SLOTS)"
    by (simp add: identify_slots_def Let_def)
  with f2 f3 show ?thesis using that by blast
qed

subsection \<open>The keys of the filled slots\<close>

lemma detect_genre_keys:
  "set (dict_keys (detect_genre U t f)) \<subseteq> insert (u ''genre'') (set (dict_keys f))"
  by (auto simp: detect_genre_def dict_keys_set split: option.splits)

lemma detect_mood_keys:
  "set (dict_keys (detect_mood t f)) \<subseteq> insert (u ''mood'') (set (dict_keys f))"
  by (auto simp: detect_mood_def dict_keys_set split: option.splits)

lemma detect_director_keys:
  "detect_director U t f = Inr f' \<Longrightarrow>
   set (dict_keys f') \<subseteq> insert (u ''director'') (set (dict_keys f))"
  using detect_director_Inr [of U t f] by (auto simp: dict_keys_set)

lemma detect_release_era_keys:
  "detect_release_era U s t f = Inr f' \<Longrightarrow>
   set (dict_keys f') \<subseteq> insert (u ''release_era'') (set (dict_keys f))"
  using detect_release_era_Inr [of U s t f] by (auto simp: dict_keys_set)

lemma detect_language_keys:
  "set (dict_keys (detect_language U t f)) \<subseteq> insert (u ''language'') (set (dict_keys f))"
  by (auto simp: detect_language_def dict_keys_set Let_def split: option.splits)

lemma detect_runtime_keys:
  "set (dict_keys (detect_runtime U t f)) \<subseteq> insert (u ''runtime'') (set (dict_keys f))"
  by (auto simp: detect_runtime_def dict_keys_set Let_def)

lemma identify_slots_keys:
  assumes "identify_slots U s = Inr (filled, missing)"
  shows "set (dict_keys filled) \<subseteq> set DEFINED_SLOTS"
proof -
  let ?t = "py_lower U s"
  obtain f2 f3 where f2: "detect_director U ?t (detect_mood ?t (detect_genre U ?t [])) = Inr f2"
    and f3: "detect_release_era U s ?t f2 = Inr f3"
    and r: "identify_slots U s = Inr (detect_runtime U ?t (detect_language U ?t f3),
            filter (\<lambda>k. \<not> dict_has k (detect_runtime U ?t (detect_language U ?t f3))) DEFINED_SLOTS)"
    by (rule identify_slots_blocks)
  have "set (dict_keys (detect_genre U ?t [])) \<subseteq> set DEFINED_SLOTS"
    using detect_genre_keys [of U ?t "[]"] by (auto simp: DEFINED_SLOTS_def dict_keys_def)
  then have "set (dict_keys (detect_mood ?t (detect_genre U ?t []))) \<subseteq> set DEFINED_SLOTS"
    using detect_mood_keys [of ?t "detect_genre U ?t []"] by (auto simp: DEFINED_SLOTS_def)
  then have "set (dict_keys f2) \<subseteq> set DEFINED_SLOTS"
    using detect_director_keys [OF f2] by (auto simp: DEFINED_SLOTS_def)
  then have "set (dict_keys f3) \<subseteq> set DEFINED_SLOTS"
    using detect_release_era_keys [OF f3] by (auto simp: DEFINED_SLOTS_def)
  then have "set (dict_keys (detect_language U ?t f3)) \<subseteq> set DEFINED_SLOTS"
    using detect_language_keys [of U ?t f3] by (auto simp: DEFINED_SLOTS_def)
  then have "set (dict_keys (detect_runtime U ?t (detect_language U ?t f3))) \<subseteq> set DEFINED_SLOTS"
    using detect_runtime_keys [of U ?t "detect_language U ?t f3"] by (auto simp: DEFINED_SLOTS_def)
  with r assms show ?thesis by simp
qed

subsection \<open>The release-era value\<close>

lemma era_ok_empty: "era_ok []"
  by (simp add: era_ok_def dict_get_def)

lemma era_ok_other: "k \<noteq> u ''release_era'' \<Longrightarrow> era_ok f \<Longrightarrow> era_ok (dict_set k v f)"
  by (simp add: era_ok_def dict_get_set)

lemma era_ok_set: "safe_era v \<Longrightarrow> era_ok (dict_set (u ''release_era'') v f)"
  by (simp add: era_ok_def dict_get_set)

lemma detect_genre_era_ok: "era_ok f \<Longrightarrow> era_ok (detect_genre U t f)"
  by (auto simp: detect_genre_def era_ok_other split: option.splits)

lemma detect_mood_era_ok: "era_ok f \<Longrightarrow> era_ok (detect_mood t f)"
  by (auto simp: detect_mood_def era_ok_other split: option.splits)

lemma detect_director_era_ok: "detect_director U t f = Inr f' \<Longrightarrow> era_ok f \<Longrightarrow> era_ok f'"
  using detect_director_Inr [of U t f] by (auto simp: era_ok_other)

lemma detect_release_era_era_ok:
  "detect_release_era U s t f = Inr f' \<Longrightarrow> era_ok f \<Longrightarrow> era_ok f'"
  using detect_release_era_Inr [of U s t f] by (auto simp: era_ok_set)

lemma detect_language_era_ok: "era_ok f \<Longrightarrow> era_ok (detect_language U t f)"
  by (auto simp: detect_language_def era_ok_other Let_def split: option.splits)

lemma detect_runtime_era_ok: "era_ok f \<Longrightarrow> era_ok (detect_runtime U t f)"
  by (auto simp: detect_runtime_def era_ok_other Let_def)

lemma identify_slots_era_ok:
  assumes "identify_slots U s = Inr (filled, missing)"
  shows "era_ok filled"
proof -
  let ?t = "py_lower U s"
  obtain f2 f3 where f2: "detect_director U ?t (detect_mood ?t (detect_genre U ?t [])) = Inr f2"
    and f3: "detect_release_era U s ?t f2 = Inr f3"
    and r: "identify_slots U s = Inr (detect_runtime U ?t (detect_language U ?t f3),
            filter (\<lambda>k. \<not> dict_has k (detect_runtime U ?t (detect_language U ?t f3))) DEFINED_SLOTS)"
    by (rule identify_slots_blocks)
  have "era_ok f2"
    using detect_director_era_ok [OF f2] detect_mood_era_ok detect_genre_era_ok era_ok_empty
    by blast
  then have "era_ok f3" using detect_release_era_era_ok [OF f3] by blast
  then have "era_ok (detect_runtime U ?t (detect_language U ?t f3))"
    using detect_runtime_era_ok detect_language_era_ok by blast
  with r assms show ?thesis by simp
qed

section \<open>Where scoring raises\<close>

lemma score_release_era_Inl:
  "score_release_era U m val = Inl e \<longleftrightarrow>
     e = ValueError \<and> py_int U val = None \<and> endswith val (u ''s'') \<and> 4 \<le> length val \<and>
     py_isdigit U (take 4 val) \<and> py_int U (take 4 val) = None"
  by (auto simp: score_release_era_def split: option.splits)

lemma label_1990s: "py_int U (take 4 (u ''1990s'')) \<noteq> None"
  by code_simp
lemma label_2000s: "py_int U (take 4 (u ''2000s'')) \<noteq> None"
  by code_simp
lemma label_2010s: "py_int U (take 4 (u ''2010s'')) \<noteq> None"
  by code_simp
lemma label_2020s: "py_int U (take 4 (u ''2020s'')) \<noteq> None"
  by code_simp
lemma label_classic: "\<not> endswith (u ''classic'') (u ''s'')"
  by code_simp

lemma safe_era_score: 
  assumes "safe_era val"
  shows "score_release_era U m val \<noteq> Inl e"
proof -
  from assms consider y where "val = py_str y" | "val \<in> fst ` set ERA_KEYWORDS"
    by (auto simp: safe_era_def)
  then show ?thesis
  proof cases
    case 1
    then show ?thesis using py_str_not_label by (simp add: score_release_era_Inl)
  next
    case 2
    then show ?thesis
      using label_1990s label_2000s label_2010s label_2020s label_classic
      by (auto simp: score_release_era_Inl ERA_KEYWORDS_def)
  qed
qed

lemma era_block_Inl:
  "(case dict_get f (u ''release_era'') of Some val \<Rightarrow> score_release_era U m val
    | None \<Rightarrow> Inr 0) = Inl e \<longleftrightarrow> e = ValueError \<and> era_raises U f"
  by (cases "dict_get f (u ''release_era'')") (simp_all add: era_raises_def score_release_era_Inl)

lemma score_movie_Inl:
  "score_movie_against_slots U m f = Inl e \<longleftrightarrow> e = ValueError \<and> era_raises U f"
proof -
  have "score_movie_against_slots U m f = Inl e \<longleftrightarrow>
    (case dict_get f (u ''release_era'') of Some val \<Rightarrow> score_release_era U m val
     | None \<Rightarrow> Inr 0) = Inl e"
    unfolding score_movie_against_slots_def Let_def by (simp split: sum.splits)
  then show ?thesis by (simp add: era_block_Inl)
qed

lemma era_ok_not_raises: "era_ok f \<Longrightarrow> \<not> era_raises U f"
  using safe_era_score [of _ U undefined ValueError]
  by (auto simp: era_ok_def era_raises_def score_release_era_Inl split: option.splits)

lemma score_movie_raises:
  "era_raises U f \<Longrightarrow> score_movie_against_slots U m f = Inl ValueError"
  by (simp add: score_movie_Inl)

lemma score_movie_ok:
  "\<not> era_raises U f \<Longrightarrow> \<exists>n. score_movie_against_slots U m f = Inr n"
  by (cases "score_movie_against_slots U m f") (simp_all add: score_movie_Inl)

lemma score_all_raises:
  "era_raises U f \<Longrightarrow> ms \<noteq> [] \<Longrightarrow> score_all U f ms = Inl ValueError"
  by (cases ms) (simp_all add: score_movie_raises)

lemma score_all_ok:
  "\<not> era_raises U f \<Longrightarrow>
   score_all U f ms = Inr (map (\<lambda>m. (projr (score_movie_against_slots U m f), m)) ms)"
proof (induction ms)
  case Nil
  show ?case by simp
next
  case (Cons m ms)
  from score_movie_ok [OF Cons.prems] obtain n where "score_movie_against_slots U m f = Inr n"
    by blast
  with Cons show ?case by simp
qed

lemma MOVIE_DB_nonempty: "MOVIE_DB \<noteq> []"
  by (simp add: MOVIE_DB_def)

lemma retrieve_candidates_Inl:
  "retrieve_candidates U f k = Inl e \<longleftrightarrow> f \<noteq> [] \<and> e = ValueError \<and> era_raises U f"
proof (cases "era_raises U f")
  case True
  then show ?thesis
    using score_all_raises [OF True MOVIE_DB_nonempty]
    by (auto simp: retrieve_candidates_def)
next
  case False
  then show ?thesis
    using score_all_ok [OF False, of MOVIE_DB]
    by (auto simp: retrieve_candidates_def Let_def)
qed

section \<open>The question that is asked\<close>

lemma get_ai_response_choose:
  assumes "identify_slots U s = Inr (f, m)"
  shows "get_ai_response U s = choose_question f m"
proof -
  have "\<not> era_raises U f" using identify_slots_era_ok [OF assms] by (rule era_ok_not_raises)
  then obtain c where "retrieve_candidates U f 3 = Inr c"
    by (cases "retrieve_candidates U f 3") (auto simp: retrieve_candidates_Inl)
  with assms show ?thesis by (simp add: get_ai_response_def Let_def)
qed

lemma identify_slots_shape:
  "\<exists>f3. identify_slots U s =
       Inr (detect_runtime U (py_lower U s) (detect_language U (py_lower U s) f3),
            filter (\<lambda>k. \<not> dict_has k (detect_runtime U (py_lower U s) (detect_language U (py_lower U s) f3)))
                   DEFINED_SLOTS)"
  by (rule identify_slots_blocks [of U s]) blast

lemma identify_slots_missing:
  assumes "identify_slots U s = Inr (f, m)"
  shows "m = filter (\<lambda>k. k \<notin> set (dict_keys f)) DEFINED_SLOTS"
  using identify_slots_shape [of U s] assms by (auto simp: dict_has_keys)

lemma identify_slots_total: "\<exists>f m. identify_slots U s = Inr (f, m)"
  using identify_slots_shape [of U s] by blast

lemma priority_slots: "priority = DEFINED_SLOTS"
  by (simp add: priority_def DEFINED_SLOTS_def)

lemma choose_question_missing:
  assumes "m = filter P DEFINED_SLOTS" "m \<noteq> []"
  shows "choose_question f m \<in> Inr ` {question_genre, question_mood, question_release_era,
           question_director, question_language, question_runtime}"
proof -
  from assms(2) have "hd m \<in> set m" by simp
  moreover have "set m \<subseteq> set priority" using assms(1) by (auto simp: priority_slots)
  ultimately obtain x where x: "x \<in> set m" "x \<in> set priority" by blast
  then have "find (\<lambda>p. p \<in> set m) priority \<noteq> None" by (auto simp: find_None_iff)
  then obtain p where p: "find (\<lambda>p. p \<in> set m) priority = Some p" by blast
  then have "p \<in> set priority" by (auto dest: find_SomeD)
  then show ?thesis using p assms(2)
    by (auto simp: choose_question_def priority_def)
qed

lemma fixed_questions_mark:
  "q \<in> {question_genre, question_mood, question_release_era, question_director,
        question_language, question_runtime} \<Longrightarrow> 63 \<in> set q"
  by (auto simp: question_genre_def question_mood_def question_release_era_def
        question_director_def question_language_def question_runtime_def u_def)

lemma confirmation_question_mark: "63 \<in> set (confirmation_question f)"
  by (auto simp: confirmation_question_def question_action_def question_same_director_def
        question_mood_strength_def question_newer_def question_starter_def u_def
        split: option.splits)

lemma qmark: "u ''?'' = [63]"
  by (simp add: u_def)

lemma starter_not_fixed:
  "question_starter \<notin> {question_genre, question_mood, question_release_era, question_director,
        question_language, question_runtime}"
  by (simp add: question_genre_def question_mood_def question_release_era_def
        question_director_def question_language_def question_runtime_def question_starter_def
        u_def)

lemma starter_not_confirmation:
  "f \<noteq> [] \<Longrightarrow> confirmation_question f \<noteq> question_starter"
  by (auto simp: confirmation_question_def question_action_def question_same_director_def
        question_mood_strength_def question_newer_def question_starter_def u_def
        split: option.splits)

lemma missing_empty_filled:
  assumes "identify_slots U s = Inr (f, [])"
  shows "set DEFINED_SLOTS \<subseteq> set (dict_keys f)"
proof -
  have "filter (\<lambda>k. k \<notin> set (dict_keys f)) DEFINED_SLOTS = []"
    using identify_slots_missing [OF assms] by simp
  then show ?thesis by (auto simp: filter_empty_conv)
qed

lemma prompt_eq_iff:
  "build_dynamic_prompt U a f c = build_dynamic_prompt U b f c \<longleftrightarrow> py_strip U a = py_strip U b"
  by (simp add: build_dynamic_prompt_def Let_def FEW_SHOT_EXAMPLES_def)

lemma detect_language_value:
  "dict_get (detect_language U t f) (u ''language'') =
    (if str_in (u ''english'') t then Some (u ''English'')
     else if str_in (u ''korean'') t then Some (u ''Korean'')
     else case find (\<lambda>m. let lang = py_lower U (language m) in lang \<noteq> [] \<and> str_in lang t) MOVIE_DB of
            Some m \<Rightarrow> Some (language m)
          | None \<Rightarrow> dict_get f (u ''language''))"
  by (simp add: detect_language_def Let_def dict_get_set split: option.splits)

lemma detect_runtime_other:
  "k \<noteq> u ''runtime'' \<Longrightarrow> dict_get (detect_runtime U t f) k = dict_get f k"
  by (simp add: detect_runtime_def Let_def dict_get_set)

section \<open>Matching a word of its own\<close>

lemma search_from_found:
  "re_ends U r (if pre = [] then p else Some (last pre), rest) \<noteq> [] \<Longrightarrow>
   search_from U r p (pre @ rest) \<noteq> None"
proof (induction pre arbitrary: p)
  case Nil
  then show ?case by (cases rest) (auto split: list.splits)
next
  case (Cons a pre)
  have "search_from U r (Some a) (pre @ rest) \<noteq> None"
    using Cons.prems by (intro Cons.IH) (auto split: if_splits)
  then show ?case by (auto split: list.splits)
qed

lemma word_m: "is_word U 109" "is_word U 110"
  by (simp_all add: is_word_def cls_def ascii_class_def)

lemma min_long_match:
  assumes "\<not> word_before U p" "\<not> word_after U post"
  shows "(Some 110, post) \<in> set (re_ends U long_pattern (p, u ''min'' @ post))"
  using assms word_m [of U]
  by (simp add: long_pattern_def u_def at_boundary_def word_after_def word_before_def)

lemma min_short_match:
  assumes "\<not> word_before U p" "\<not> word_after U post"
  shows "(Some 110, post) \<in> set (re_ends U short_pattern (p, u ''min'' @ post))"
  using assms word_m [of U]
  by (simp add: short_pattern_def u_def at_boundary_def word_after_def word_before_def)

lemma min_word_found:
  assumes "t = pre @ u ''min'' @ post"
    and "pre = [] \<or> \<not> is_word U (last pre)"
    and "post = [] \<or> \<not> is_word U (hd post)"
  shows "re_search U short_pattern t \<noteq> None" "re_search U long_pattern t \<noteq> None"
proof -
  let ?p = "if pre = [] then None else Some (last pre)"
  have b: "\<not> word_before U ?p" using assms(2) by (auto simp: word_before_def)
  have a: "\<not> word_after U post" using assms(3) by (cases post) (auto simp: word_after_def)
  have "re_ends U short_pattern (?p, u ''min'' @ post) \<noteq> []"
    using min_short_match [OF b a] by auto
  then show "re_search U short_pattern t \<noteq> None"
    unfolding re_search_def assms(1) by (rule search_from_found)
  have "re_ends U long_pattern (?p, u ''min'' @ post) \<noteq> []"
    using min_long_match [OF b a] by auto
  then show "re_search U long_pattern t \<noteq> None"
    unfolding re_search_def assms(1) by (rule search_from_found)
qed

section \<open>How many candidates are returned\<close>

lemma slice_to_length:
  "length (slice_to xs k) =
    (if 0 \<le> k then min (nat k) (length xs) else nat (int (length xs) + k))"
  by (auto simp: slice_to_def)

lemma slice_to_empty:
  "k \<le> 0 \<Longrightarrow> xs \<noteq> [] \<Longrightarrow> slice_to xs k = [] \<longleftrightarrow> k = 0 \<or> int (length xs) + k \<le> 0"
  by (auto simp: slice_to_def)

lemma sorted_reverse_length: "length (sorted_reverse f xs) = length xs"
  by (simp add: sorted_reverse_def)

lemma MOVIE_DB_length: "length MOVIE_DB = 5"
  by (simp add: MOVIE_DB_def)

lemma retrieve_candidates_empty: "retrieve_candidates U [] k = Inr (slice_to MOVIE_DB k)"
  by (simp add: retrieve_candidates_def)

lemma retrieve_candidates_scored:
  assumes "f \<noteq> []" "\<not> era_raises U f"
  shows "\<exists>pos. length pos \<le> 5 \<and>
     retrieve_candidates U f k =
       Inr (if slice_to pos k = [] then slice_to (sorted_reverse release_year MOVIE_DB) k
            else slice_to pos k)"
proof -
  let ?scored = "map (\<lambda>m. (projr (score_movie_against_slots U m f), m)) MOVIE_DB"
  let ?pos = "map snd (filter (\<lambda>x. 0 < fst x)
                 (sorted_reverse (\<lambda>x. (fst x, release_year (snd x))) ?scored))"
  have "length ?pos \<le> length (sorted_reverse (\<lambda>x. (fst x, release_year (snd x))) ?scored)"
    by simp
  then have "length ?pos \<le> 5" by (simp add: sorted_reverse_length MOVIE_DB_length)
  moreover have "retrieve_candidates U f k =
       Inr (if slice_to ?pos k = [] then slice_to (sorted_reverse release_year MOVIE_DB) k
            else slice_to ?pos k)"
    using assms(1) score_all_ok [OF assms(2), of MOVIE_DB]
    by (simp add: retrieve_candidates_def Let_def)
  ultimately show ?thesis by blast
qed

lemma retrieve_candidates_bounds:
  assumes "1 \<le> top_k" "\<not> era_raises U f"
  shows "\<exists>r. retrieve_candidates U f top_k = Inr r \<and> 1 \<le> length r \<and> int (length r) \<le> top_k"
proof (cases "f = []")
  case True
  then show ?thesis using assms(1)
    by (auto simp: retrieve_candidates_empty slice_to_length MOVIE_DB_length)
next
  case False
  from retrieve_candidates_scored [OF False assms(2), of top_k] obtain pos where
    r: "retrieve_candidates U f top_k =
       Inr (if slice_to pos top_k = [] then slice_to (sorted_reverse release_year MOVIE_DB) top_k
            else slice_to pos top_k)" by blast
  show ?thesis
  proof (cases "slice_to pos top_k = []")
    case True
    with r assms(1) show ?thesis
      by (auto simp: slice_to_length sorted_reverse_length MOVIE_DB_length)
  next
    case False
    then have "1 \<le> length (slice_to pos top_k)" by (cases "slice_to pos top_k") auto
    moreover have "int (length (slice_to pos top_k)) \<le> top_k"
      using assms(1) by (auto simp: slice_to_length)
    ultimately show ?thesis using r False by auto
  qed
qed

lemma year_order: "sorted_reverse release_year MOVIE_DB =
    [parasite, la_la_land, the_avengers, inception, the_dark_knight]"
  by code_simp

lemma sorted_reverse_set: "set (sorted_reverse f xs) = set xs"
  by (simp add: sorted_reverse_def)

lemma retrieve_candidates_fallback:
  assumes "f \<noteq> []" "\<not> era_raises U f"
    and "\<forall>m\<in>set MOVIE_DB. projr (score_movie_against_slots U m f) \<le> 0"
  shows "retrieve_candidates U f k =
           Inr (slice_to [parasite, la_la_land, the_avengers, inception, the_dark_knight] k)"
proof -
  let ?scored = "map (\<lambda>m. (projr (score_movie_against_slots U m f), m)) MOVIE_DB"
  have "\<forall>x\<in>set ?scored. \<not> 0 < fst x" using assms(3) by auto
  then have "filter (\<lambda>x. 0 < fst x)
      (sorted_reverse (\<lambda>x. (fst x, release_year (snd x))) ?scored) = []"
    by (simp add: filter_empty_conv sorted_reverse_set del: set_map)
  then show ?thesis
    using assms(1) score_all_ok [OF assms(2), of MOVIE_DB]
    by (simp add: retrieve_candidates_def Let_def slice_to_def year_order)
qed

text \<open>
  The ranking: with filled slots and a positive \<open>top_k\<close>, the movies returned are in
  descending order of the pair of score and release year, so that among equal scores
  the later release comes first. Scores are never negative, which makes the fallback
  list (all scores zero, newest first) ranked in the same way.
\<close>

lemma sorted_reverse_desc: "sorted_wrt (\<lambda>a b. key b \<le> key a) (sorted_reverse key xs)"
proof -
  have "sorted (map key (sort_key key (rev xs)))" by (rule sorted_sort_key)
  then have "sorted_wrt (\<lambda>a b. key a \<le> key b) (sort_key key (rev xs))"
    by (simp add: sorted_map)
  then show ?thesis by (simp add: sorted_reverse_def sorted_wrt_rev)
qed

lemma score_release_era_nonneg: "score_release_era U m val = Inr n \<Longrightarrow> 0 \<le> n"
  by (auto simp: score_release_era_def split: option.splits if_splits)

lemma score_mood_nonneg: "0 \<le> score_mood U m mood"
  by (simp add: score_mood_def)

lemma score_nonneg:
  assumes "score_movie_against_slots U m f = Inr n"
  shows "0 \<le> n"
proof -
  obtain e where e: "(case dict_get f (u ''release_era'') of Some val \<Rightarrow> score_release_era U m val
              | None \<Rightarrow> Inr 0) = Inr e"
    using assms unfolding score_movie_against_slots_def Let_def by (auto split: sum.splits)
  then have "0 \<le> e" by (auto split: option.splits dest: score_release_era_nonneg)
  then show ?thesis
    using assms e score_mood_nonneg [of U m]
    unfolding score_movie_against_slots_def Let_def
    by (auto split: option.splits if_splits)
qed

lemma retrieve_candidates_ranked:
  assumes "f \<noteq> []" "1 \<le> k" "retrieve_candidates U f k = Inr r"
  shows "sorted_wrt (\<lambda>a b. (projr (score_movie_against_slots U b f), release_year b)
                         \<le> (projr (score_movie_against_slots U a f), release_year a)) r"
proof -
  let ?sc = "\<lambda>m. projr (score_movie_against_slots U m f)"
  let ?keyf = "\<lambda>m. (?sc m, release_year m)"
  let ?key2 = "\<lambda>x::int \<times> movie. (fst x, release_year (snd x))"
  let ?scored = "map (\<lambda>m. (?sc m, m)) MOVIE_DB"
  let ?S = "sorted_reverse ?key2 ?scored"
  let ?pos = "map snd (filter (\<lambda>x. 0 < fst x) ?S)"
  have nr: "\<not> era_raises U f"
    using assms(1,3) retrieve_candidates_Inl [of U f k ValueError] by auto
  have r: "r = (if take (nat k) ?pos = [] then take (nat k) (sorted_reverse release_year MOVIE_DB)
               else take (nat k) ?pos)"
  proof -
    have sl: "\<And>xs::movie list. slice_to xs k = take (nat k) xs"
      using assms(2) by (simp add: slice_to_def)
    have "retrieve_candidates U f k =
        Inr (if slice_to ?pos k = [] then slice_to (sorted_reverse release_year MOVIE_DB) k
             else slice_to ?pos k)"
      using assms(1) score_all_ok [OF nr, of MOVIE_DB]
      by (simp add: retrieve_candidates_def Let_def)
    then have "Inr r = (Inr (if slice_to ?pos k = [] then slice_to (sorted_reverse release_year MOVIE_DB) k
             else slice_to ?pos k) :: error + movie list)"
      by (simp only: assms(3))
    then have "r = (if slice_to ?pos k = [] then slice_to (sorted_reverse release_year MOVIE_DB) k
             else slice_to ?pos k)"
      by (simp only: sum.inject)
    then show ?thesis by (simp only: sl)
  qed
  have S: "sorted_wrt (\<lambda>a b. ?key2 b \<le> ?key2 a) ?S" by (rule sorted_reverse_desc)
  have el: "\<And>x. x \<in> set ?S \<Longrightarrow> fst x = ?sc (snd x)"
    by (auto simp: sorted_reverse_set)
  have "sorted_wrt (\<lambda>a b. ?keyf (snd b) \<le> ?keyf (snd a)) ?S"
    using S by (rule sorted_wrt_mono_rel [rotated]) (simp add: el)
  then have "sorted_wrt (\<lambda>a b. ?keyf (snd b) \<le> ?keyf (snd a)) (filter (\<lambda>x. 0 < fst x) ?S)"
    by (rule sorted_wrt_filter)
  then have pos: "sorted_wrt (\<lambda>a b. ?keyf b \<le> ?keyf a) ?pos"
    by (simp add: sorted_wrt_map)
  show ?thesis
  proof (cases "take (nat k) ?pos = []")
    case False
    with r pos show ?thesis by simp
  next
    case True
    with assms(2) have "?pos = []" by (cases ?pos) (auto simp: take_Cons')
    then have "\<forall>x\<in>set ?S. \<not> 0 < fst x" by (simp add: filter_empty_conv)
    then have le: "\<forall>m\<in>set MOVIE_DB. ?sc m \<le> 0"
      by (auto simp: sorted_reverse_set)
    have zero: "\<forall>m\<in>set MOVIE_DB. ?sc m = 0"
    proof
      fix m assume m: "m \<in> set MOVIE_DB"
      from score_movie_ok [OF nr, of m] obtain n where n: "score_movie_against_slots U m f = Inr n"
        by blast
      with score_nonneg [OF n] le m show "?sc m = 0" by auto
    qed
    have Y: "sorted_wrt (\<lambda>a b. release_year b \<le> release_year a) (sorted_reverse release_year MOVIE_DB)"
      by (rule sorted_reverse_desc)
    have "sorted_wrt (\<lambda>a b. ?keyf b \<le> ?keyf a) (sorted_reverse release_year MOVIE_DB)"
      using Y by (rule sorted_wrt_mono_rel [rotated]) (simp add: sorted_reverse_set zero)
    with r True show ?thesis by simp
  qed
qed

section \<open>The claims\<close>

text \<open>
  C1. For every input string, the empty one included, \<open>get_ai_response\<close> returns (it
  raises nothing) a string that is not empty and contains a question mark.
\<close>

theorem get_ai_response_asks:
  "\<exists>q. get_ai_response U user_input = Inr q \<and> q \<noteq> [] \<and> str_in (u ''?'') q"
proof -
  obtain f m where fm: "identify_slots U user_input = Inr (f, m)"
    using identify_slots_total by blast
  have r: "get_ai_response U user_input = choose_question f m"
    using fm by (rule get_ai_response_choose)
  have "\<exists>q. choose_question f m = Inr q \<and> 63 \<in> set q"
  proof (cases "m = []")
    case True
    then show ?thesis by (simp add: choose_question_def confirmation_question_mark)
  next
    case False
    from choose_question_missing [OF identify_slots_missing [OF fm] False, of f]
    show ?thesis using fixed_questions_mark by blast
  qed
  then obtain q where "choose_question f m = Inr q" "63 \<in> set q" by blast
  with r show ?thesis by (auto simp: qmark str_in_single)
qed

theorem get_ai_response_asks_witness:
  "get_ai_response latin1_db (u ''Recommend a fun action movie'') = Inr question_release_era \<and>
   question_release_era \<noteq> [] \<and> str_in (u ''?'') question_release_era"
proof -
  have i: "identify_slots latin1_db (u ''Recommend a fun action movie'') =
     Inr ([(u ''genre'', u ''Action''), (u ''mood'', u ''fun'')],
          [u ''release_era'', u ''director'', u ''language'', u ''runtime''])"
    by code_simp
  have e: "get_ai_response latin1_db (u ''Recommend a fun action movie'') = Inr question_release_era"
    unfolding get_ai_response_choose [OF i] by (simp add: choose_question_def priority_def)
  from get_ai_response_asks [of latin1_db "u ''Recommend a fun action movie''"] e
  show ?thesis by auto
qed

text \<open>
  C2. For every dictionary of filled slots and every \<open>top_k\<close> of at least one,
  \<open>retrieve_candidates\<close> is to return between one and \<open>top_k\<close> movies. It does so
  wherever scoring returns (\<open>retrieve_candidates_bounds\<close>, \<open>retrieve_candidates_fallback\<close>),
  but on a release-era label whose first four characters are superscript digits the
  \<open>isdigit\<close> test passes, \<open>int\<close> fails inside the exception handler, and the call
  raises \<open>ValueError\<close> instead of returning a list.
\<close>

theorem superscript_label_raises:
  "py_int latin1_db [178, 178, 178, 178, 115] = None \<and>
   endswith [178, 178, 178, 178, 115] (u ''s'') \<and>
   py_isdigit latin1_db (take 4 [178, 178, 178, 178, 115]) \<and>
   py_int latin1_db (take 4 [178, 178, 178, 178, 115]) = None \<and>
   retrieve_candidates latin1_db [(u ''release_era'', [178, 178, 178, 178, 115])] 3 =
     Inl ValueError"
  by code_simp

text \<open>
  C3. For every input string, \<open>identify_slots\<close> returns a pair of filled and missing
  slots: the keys of the filled slots are among the six slot names, and the missing
  slots are the slot names that are not filled, in the order of the enumeration.
\<close>

theorem identify_slots_partition:
  "\<exists>filled missing. identify_slots U user_input = Inr (filled, missing) \<and>
     set (dict_keys filled) \<subseteq> {u ''genre'', u ''mood'', u ''release_era'', u ''director'',
                               u ''language'', u ''runtime''} \<and>
     missing = filter (\<lambda>s. s \<notin> set (dict_keys filled))
                 [u ''genre'', u ''mood'', u ''release_era'', u ''director'', u ''language'',
                  u ''runtime'']"
proof -
  obtain f m where fm: "identify_slots U user_input = Inr (f, m)"
    using identify_slots_total by blast
  from identify_slots_keys [OF fm] identify_slots_missing [OF fm] fm show ?thesis
    by (auto simp: DEFINED_SLOTS_def)
qed

theorem identify_slots_partition_witness:
  "identify_slots latin1_db (u ''Recommend a fun action movie'') =
     Inr ([(u ''genre'', u ''Action''), (u ''mood'', u ''fun'')],
          [u ''release_era'', u ''director'', u ''language'', u ''runtime'']) \<and>
   set (dict_keys [(u ''genre'', u ''Action''), (u ''mood'', u ''fun'')])
     \<subseteq> {u ''genre'', u ''mood'', u ''release_era'', u ''director'', u ''language'', u ''runtime''} \<and>
   [u ''release_era'', u ''director'', u ''language'', u ''runtime''] =
     filter (\<lambda>s. s \<notin> set (dict_keys [(u ''genre'', u ''Action''), (u ''mood'', u ''fun'')]))
       [u ''genre'', u ''mood'', u ''release_era'', u ''director'', u ''language'', u ''runtime'']"
proof -
  have e: "identify_slots latin1_db (u ''Recommend a fun action movie'') =
     Inr ([(u ''genre'', u ''Action''), (u ''mood'', u ''fun'')],
          [u ''release_era'', u ''director'', u ''language'', u ''runtime''])"
    by code_simp
  from identify_slots_partition [of latin1_db "u ''Recommend a fun action movie''"] e
  show ?thesis by auto
qed

text \<open>
  C4. With the director slot filled with Christopher Nolan and \<open>top_k = 3\<close>,
  \<open>retrieve_candidates\<close> returns Inception and The Dark Knight, in this order: the two
  score 4 from the director match, every other movie scores 0 and is left out, and the
  tie is broken by the release year, 2010 before 2008. The tie-break is the sort of
  \<open>retrieve_candidates\<close>, not the order of the catalog: whatever the filled slots, the
  result is in descending order of score and then release year; the sort puts Inception
  first also when The Dark Knight is given first, and reorders the scored list of this
  very call; and with the language slot filled with English, where four movies tie at
  2, the result is La La Land (2016), The Avengers (2012), Inception (2010), the reverse
  of their order in the catalog.
\<close>

theorem nolan_candidates:
  "retrieve_candidates U [(u ''director'', u ''Christopher Nolan'')] 3 =
     Inr [inception, the_dark_knight] \<and>
   map (\<lambda>m. score_movie_against_slots U m [(u ''director'', u ''Christopher Nolan'')]) MOVIE_DB =
     [Inr 4, Inr 0, Inr 0, Inr 0, Inr 4] \<and>
   map title [inception, the_dark_knight] = [u ''Inception'', u ''The Dark Knight''] \<and>
   map release_year [inception, the_dark_knight] = [2010, 2008] \<and>
   (\<forall>filled_slots top_k r.
      filled_slots \<noteq> [] \<longrightarrow> 1 \<le> top_k \<longrightarrow>
      retrieve_candidates U filled_slots top_k = Inr r \<longrightarrow>
      sorted_wrt (\<lambda>a b. (projr (score_movie_against_slots U b filled_slots), release_year b)
                       \<le> (projr (score_movie_against_slots U a filled_slots), release_year a)) r) \<and>
   sorted_reverse (\<lambda>x. (fst x, release_year (snd x)))
       [(4::int, the_dark_knight), (4, inception)] = [(4, inception), (4, the_dark_knight)] \<and>
   sorted_reverse (\<lambda>x. (fst x, release_year (snd x)))
       [(4::int, inception), (0, parasite), (0, the_avengers), (0, la_la_land),
        (4, the_dark_knight)] =
     [(4, inception), (4, the_dark_knight), (0, parasite), (0, la_la_land), (0, the_avengers)] \<and>
   map (\<lambda>m. score_movie_against_slots U m [(u ''language'', u ''English'')]) MOVIE_DB =
     [Inr 2, Inr 0, Inr 2, Inr 2, Inr 2] \<and>
   retrieve_candidates U [(u ''language'', u ''English'')] 3 =
     Inr [la_la_land, the_avengers, inception]"
proof -
  have c1: "retrieve_candidates U [(u ''director'', u ''Christopher Nolan'')] 3 =
     Inr [inception, the_dark_knight]"
    by code_simp
  have c2: "map (\<lambda>m. score_movie_against_slots U m [(u ''director'', u ''Christopher Nolan'')])
       MOVIE_DB = [Inr 4, Inr 0, Inr 0, Inr 0, Inr 4]"
    by code_simp
  have c3: "map title [inception, the_dark_knight] = [u ''Inception'', u ''The Dark Knight'']"
    by code_simp
  have c4: "map release_year [inception, the_dark_knight] = [2010, 2008]"
    by code_simp
  have law: "\<forall>filled_slots top_k r.
      filled_slots \<noteq> [] \<longrightarrow> 1 \<le> top_k \<longrightarrow>
      retrieve_candidates U filled_slots top_k = Inr r \<longrightarrow>
      sorted_wrt (\<lambda>a b. (projr (score_movie_against_slots U b filled_slots), release_year b)
                       \<le> (projr (score_movie_against_slots U a filled_slots), release_year a)) r"
    using retrieve_candidates_ranked by blast
  have c5: "sorted_reverse (\<lambda>x. (fst x, release_year (snd x)))
       [(4::int, the_dark_knight), (4, inception)] = [(4, inception), (4, the_dark_knight)]"
    by code_simp
  have c6: "sorted_reverse (\<lambda>x. (fst x, release_year (snd x)))
       [(4::int, inception), (0, parasite), (0, the_avengers), (0, la_la_land),
        (4, the_dark_knight)] =
     [(4, inception), (4, the_dark_knight), (0, parasite), (0, la_la_land), (0, the_avengers)]"
    by code_simp
  have c7: "map (\<lambda>m. score_movie_against_slots U m [(u ''language'', u ''English'')]) MOVIE_DB =
     [Inr 2, Inr 0, Inr 2, Inr 2, Inr 2]"
    by code_simp
  have c8: "retrieve_candidates U [(u ''language'', u ''English'')] 3 =
     Inr [la_la_land, the_avengers, inception]"
    by code_simp
  show ?thesis
    by (intro conjI) (rule c1, rule c2, rule c3, rule c4, rule law, rule c5, rule c6, rule c7,
        rule c8)
qed

theorem nolan_candidates_witness:
  "retrieve_candidates latin1_db [(u ''director'', u ''Christopher Nolan'')] 3 =
     Inr [inception, the_dark_knight] \<and>
   [(u ''language'', u ''English'')] \<noteq> [] \<and> (1::int) \<le> 3 \<and>
   retrieve_candidates latin1_db [(u ''language'', u ''English'')] 3 =
     Inr [la_la_land, the_avengers, inception] \<and>
   sorted_wrt (\<lambda>a b. (projr (score_movie_against_slots latin1_db b [(u ''language'', u ''English'')]),
                       release_year b)
                    \<le> (projr (score_movie_against_slots latin1_db a [(u ''language'', u ''English'')]),
                       release_year a))
     [la_la_land, the_avengers, inception]"
proof -
  note n = nolan_candidates [of latin1_db]
  have d: "retrieve_candidates latin1_db [(u ''director'', u ''Christopher Nolan'')] 3 =
     Inr [inception, the_dark_knight]"
    using n by (elim conjE)
  have e: "retrieve_candidates latin1_db [(u ''language'', u ''English'')] 3 =
     Inr [la_la_land, the_avengers, inception]"
    using n by (elim conjE)
  have law: "\<forall>filled_slots top_k r.
      filled_slots \<noteq> [] \<longrightarrow> 1 \<le> top_k \<longrightarrow>
      retrieve_candidates latin1_db filled_slots top_k = Inr r \<longrightarrow>
      sorted_wrt (\<lambda>a b. (projr (score_movie_against_slots latin1_db b filled_slots), release_year b)
                       \<le> (projr (score_movie_against_slots latin1_db a filled_slots), release_year a)) r"
    using n by (elim conjE)
  have ne: "[(u ''language'', u ''English'')] \<noteq> []"
    by simp
  have k: "(1::int) \<le> 3"
    by simp
  note s = law [rule_format, OF ne k e]
  show ?thesis
    by (intro conjI) (rule d, rule ne, rule k, rule e, rule s)
qed

text \<open>
  C5, as stated: for every \<open>top_k\<close> of at most zero the result is the empty list. It
  fails at \<open>top_k = -1\<close>, where the slice \<open>MOVIE_DB[:-1]\<close> drops the last movie only.
\<close>

theorem negative_top_k_counterexample:
  "retrieve_candidates latin1_db [] (- 1) = Inr [inception, parasite, the_avengers, la_la_land]"
  by code_simp

text \<open>
  C5, amended: for \<open>top_k\<close> of at most zero and filled slots on which scoring does not
  raise, \<open>retrieve_candidates\<close> returns a list, and the list is empty exactly when
  \<open>top_k\<close> is zero or at most -5; from -4 to -1 the negative slice bound leaves movies in.
\<close>

theorem nonpositive_top_k:
  assumes "top_k \<le> 0" "\<not> era_raises U filled_slots"
  shows "\<exists>r. retrieve_candidates U filled_slots top_k = Inr r \<and>
             (r = [] \<longleftrightarrow> top_k = 0 \<or> top_k \<le> - 5)"
proof (cases "filled_slots = []")
  case True
  then show ?thesis
    using slice_to_empty [OF assms(1) MOVIE_DB_nonempty]
    by (auto simp: retrieve_candidates_empty MOVIE_DB_length)
next
  case False
  from retrieve_candidates_scored [OF False assms(2), of top_k] obtain pos where
    len: "length pos \<le> 5" and
    r: "retrieve_candidates U filled_slots top_k =
       Inr (if slice_to pos top_k = [] then slice_to (sorted_reverse release_year MOVIE_DB) top_k
            else slice_to pos top_k)" by blast
  have ne: "sorted_reverse release_year MOVIE_DB \<noteq> []"
    using sorted_reverse_length [of release_year MOVIE_DB] MOVIE_DB_length by auto
  show ?thesis
  proof (cases "slice_to pos top_k = []")
    case True
    with r show ?thesis
      using slice_to_empty [OF assms(1) ne]
      by (auto simp: sorted_reverse_length MOVIE_DB_length)
  next
    case False
    then have "pos \<noteq> []" by (cases "0 \<le> top_k") (auto simp: slice_to_def)
    from False slice_to_empty [OF assms(1) this] have "top_k \<noteq> 0" "0 < int (length pos) + top_k"
      by auto
    with len have "\<not> (top_k = 0 \<or> top_k \<le> - 5)" by auto
    with r False show ?thesis by auto
  qed
qed

theorem nonpositive_top_k_witness:
  "(0::int) \<le> 0 \<and> \<not> era_raises latin1_db [(u ''genre'', u ''Action'')] \<and>
   retrieve_candidates latin1_db [(u ''genre'', u ''Action'')] 0 = Inr []"
proof -
  have e: "\<not> era_raises latin1_db [(u ''genre'', u ''Action'')]"
    by (simp add: era_raises_def dict_get_def)
  from nonpositive_top_k [of 0 latin1_db "[(u ''genre'', u ''Action'')]", OF _ e] e
  show ?thesis by auto
qed

text \<open>
  C6, as stated: every input whose lower-case text contains \<open>min\<close> gets the runtime
  \<open>long\<close>. It fails on \<open>a 90 minute movie\<close>: both patterns are anchored by \<open>\b\<close>, and
  \<open>min\<close> inside \<open>minute\<close> is no word of its own.
\<close>

theorem min_substring_counterexample:
  "str_in (u ''min'') (py_lower latin1_db (u ''a 90 minute movie'')) \<and>
   re_search latin1_db short_pattern (py_lower latin1_db (u ''a 90 minute movie'')) = None \<and>
   re_search latin1_db long_pattern (py_lower latin1_db (u ''a 90 minute movie'')) = None \<and>
   identify_slots latin1_db (u ''a 90 minute movie'') =
     Inr ([], [u ''genre'', u ''mood'', u ''release_era'', u ''director'', u ''language'',
               u ''runtime''])"
  by code_simp

text \<open>
  C6, amended: when the lower-case text contains \<open>min\<close> as a word of its own (no word
  character directly before or after it), the short and the long pattern both match,
  and \<open>identify_slots\<close> fills the runtime slot with \<open>long\<close>.
\<close>

theorem min_word_sets_long:
  assumes "py_lower U user_input = pre @ u ''min'' @ post"
    and "pre = [] \<or> \<not> is_word U (last pre)"
    and "post = [] \<or> \<not> is_word U (hd post)"
  shows "re_search U short_pattern (py_lower U user_input) \<noteq> None \<and>
         re_search U long_pattern (py_lower U user_input) \<noteq> None \<and>
         (\<exists>filled missing. identify_slots U user_input = Inr (filled, missing) \<and>
            dict_get filled (u ''runtime'') = Some (u ''long''))"
proof -
  note m = min_word_found [OF assms]
  obtain f3 where "identify_slots U user_input =
       Inr (detect_runtime U (py_lower U user_input) (detect_language U (py_lower U user_input) f3),
            filter (\<lambda>k. \<not> dict_has k (detect_runtime U (py_lower U user_input)
                     (detect_language U (py_lower U user_input) f3))) DEFINED_SLOTS)"
    using identify_slots_shape by blast
  moreover have "dict_get (detect_runtime U (py_lower U user_input)
      (detect_language U (py_lower U user_input) f3)) (u ''runtime'') = Some (u ''long'')"
    using m by (simp add: detect_runtime_def Let_def dict_get_set)
  ultimately show ?thesis using m by simp
qed

theorem min_word_sets_long_witness:
  "py_lower latin1_db (u ''a 90 min movie'') = u ''a 90 '' @ u ''min'' @ u '' movie'' \<and>
   \<not> is_word latin1_db (last (u ''a 90 '')) \<and> \<not> is_word latin1_db (hd (u '' movie'')) \<and>
   identify_slots latin1_db (u ''a 90 min movie'') =
     Inr ([(u ''runtime'', u ''long'')],
          [u ''genre'', u ''mood'', u ''release_era'', u ''director'', u ''language''])"
proof -
  have l: "py_lower latin1_db (u ''a 90 min movie'') = u ''a 90 '' @ u ''min'' @ u '' movie''"
    by code_simp
  have p: "\<not> is_word latin1_db (last (u ''a 90 ''))"
    by code_simp
  have q: "\<not> is_word latin1_db (hd (u '' movie''))"
    by code_simp
  have i: "identify_slots latin1_db (u ''a 90 min movie'') =
     Inr ([(u ''runtime'', u ''long'')],
          [u ''genre'', u ''mood'', u ''release_era'', u ''director'', u ''language''])"
    by code_simp
  from min_word_sets_long [of latin1_db "u ''a 90 min movie''" "u ''a 90 ''" "u '' movie''", OF l]
    p q l i
  show ?thesis by simp
qed

text \<open>
  C7. When the lower-case text contains \<open>english\<close>, the language slot is \<open>English\<close>,
  also when \<open>korean\<close> is there too; with \<open>korean\<close> and without \<open>english\<close> it is
  \<open>Korean\<close>. Both override what the catalog loop found.
\<close>

theorem explicit_language_wins:
  "\<exists>filled missing. identify_slots U user_input = Inr (filled, missing) \<and>
     (str_in (u ''english'') (py_lower U user_input) \<longrightarrow>
        dict_get filled (u ''language'') = Some (u ''English'')) \<and>
     (str_in (u ''korean'') (py_lower U user_input) \<longrightarrow>
      \<not> str_in (u ''english'') (py_lower U user_input) \<longrightarrow>
        dict_get filled (u ''language'') = Some (u ''Korean''))"
  using identify_slots_shape [of U user_input]
  by (auto simp: detect_runtime_other detect_language_value)

theorem explicit_language_wins_witness:
  "str_in (u ''korean'') (py_lower latin1_db (u ''Korean or English?'')) \<and>
   str_in (u ''english'') (py_lower latin1_db (u ''Korean or English?'')) \<and>
   identify_slots latin1_db (u ''Korean or English?'') =
     Inr ([(u ''language'', u ''English'')],
          [u ''genre'', u ''mood'', u ''release_era'', u ''director'', u ''runtime''])"
proof -
  have k: "str_in (u ''korean'') (py_lower latin1_db (u ''Korean or English?''))"
    by code_simp
  have e: "str_in (u ''english'') (py_lower latin1_db (u ''Korean or English?''))"
    by code_simp
  have i: "identify_slots latin1_db (u ''Korean or English?'') =
     Inr ([(u ''language'', u ''English'')],
          [u ''genre'', u ''mood'', u ''release_era'', u ''director'', u ''runtime''])"
    by code_simp
  from explicit_language_wins [of latin1_db "u ''Korean or English?''"] k e i
  show ?thesis by simp
qed

text \<open>
  C8. When \<open>identify_slots\<close> fills all six slots and the genre value contains
  \<open>Action\<close>, \<open>get_ai_response\<close> returns the gritty-or-blockbuster question, whatever
  the other values are.
\<close>

theorem action_question_when_all_filled:
  assumes "identify_slots U user_input = Inr (filled, missing)"
    and "\<forall>k \<in> set DEFINED_SLOTS. dict_has k filled"
    and "dict_get filled (u ''genre'') = Some g"
    and "str_in (u ''Action'') g"
  shows "get_ai_response U user_input = Inr question_action"
proof -
  have "missing = []"
    using identify_slots_missing [OF assms(1)] assms(2)
    by (auto simp: filter_empty_conv dict_has_keys)
  moreover have "filled \<noteq> []" using assms(3) by (auto simp: dict_get_def)
  moreover have "g \<noteq> []" using assms(4) by (auto simp: u_def)
  ultimately show ?thesis
    using get_ai_response_choose [OF assms(1)] assms(3,4)
    by (simp add: choose_question_def confirmation_question_def)
qed

theorem action_question_when_all_filled_witness:
  "identify_slots latin1_db (u ''fun Action movie by NOLAN from 2010 in English, long'') =
     Inr ([(u ''genre'', u ''Action''), (u ''mood'', u ''fun''),
           (u ''director'', u ''Christopher Nolan''), (u ''release_era'', u ''2010''),
           (u ''language'', u ''English''), (u ''runtime'', u ''long'')], []) \<and>
   get_ai_response latin1_db (u ''fun Action movie by NOLAN from 2010 in English, long'') =
     Inr question_action"
proof -
  let ?f = "[(u ''genre'', u ''Action''), (u ''mood'', u ''fun''),
           (u ''director'', u ''Christopher Nolan''), (u ''release_era'', u ''2010''),
           (u ''language'', u ''English''), (u ''runtime'', u ''long'')]"
  have i: "identify_slots latin1_db (u ''fun Action movie by NOLAN from 2010 in English, long'') =
     Inr (?f, [])"
    by code_simp
  have a: "\<forall>k \<in> set DEFINED_SLOTS. dict_has k ?f"
    by (simp add: DEFINED_SLOTS_def dict_has_def)
  have g: "dict_get ?f (u ''genre'') = Some (u ''Action'')"
    by (simp add: dict_get_def)
  have s: "str_in (u ''Action'') (u ''Action'')"
    by (simp add: u_def)
  from action_question_when_all_filled [OF i a g s] i show ?thesis by simp
qed

text \<open>
  C9. The starter question is never returned: for every input string the result of
  \<open>get_ai_response\<close> is another question, because when nothing is filled all six slots
  are missing and the missing-slot branch returns first.
\<close>

theorem starter_unreachable:
  "get_ai_response U user_input \<noteq> Inr question_starter \<and>
   (\<forall>filled missing. identify_slots U user_input = Inr (filled, missing) \<longrightarrow> filled = [] \<longrightarrow>
      missing = [u ''genre'', u ''mood'', u ''release_era'', u ''director'', u ''language'',
                 u ''runtime''])"
proof
  obtain f m where fm: "identify_slots U user_input = Inr (f, m)"
    using identify_slots_total by blast
  have r: "get_ai_response U user_input = choose_question f m"
    using fm by (rule get_ai_response_choose)
  show "get_ai_response U user_input \<noteq> Inr question_starter"
  proof (cases "m = []")
    case True
    with fm have "set DEFINED_SLOTS \<subseteq> set (dict_keys f)" using missing_empty_filled by blast
    then have "f \<noteq> []" by (auto simp: DEFINED_SLOTS_def dict_keys_def)
    then show ?thesis using r True starter_not_confirmation
      by (simp add: choose_question_def)
  next
    case False
    from choose_question_missing [OF identify_slots_missing [OF fm] False, of f]
    show ?thesis using r starter_not_fixed by auto
  qed
next
  show "\<forall>filled missing. identify_slots U user_input = Inr (filled, missing) \<longrightarrow> filled = [] \<longrightarrow>
      missing = [u ''genre'', u ''mood'', u ''release_era'', u ''director'', u ''language'',
                 u ''runtime'']"
    using identify_slots_missing [of U user_input]
    by (auto simp: DEFINED_SLOTS_def dict_keys_def)
qed

theorem starter_unreachable_witness:
  "get_ai_response latin1_db [] = Inr question_genre \<and>
   get_ai_response latin1_db [] \<noteq> Inr question_starter \<and>
   identify_slots latin1_db [] =
     Inr ([], [u ''genre'', u ''mood'', u ''release_era'', u ''director'', u ''language'',
               u ''runtime''])"
proof -
  have i: "identify_slots latin1_db [] =
     Inr ([], [u ''genre'', u ''mood'', u ''release_era'', u ''director'', u ''language'',
               u ''runtime''])"
    by code_simp
  have e: "get_ai_response latin1_db [] = Inr question_genre"
    unfolding get_ai_response_choose [OF i] by (simp add: choose_question_def priority_def)
  from starter_unreachable [of latin1_db "[]"] e i show ?thesis by simp
qed

text \<open>
  C10. The question depends on the input only through the result of \<open>identify_slots\<close>:
  two inputs with the same filled and missing slots get the same question. The prompt
  that is built on the way echoes the input and can differ; it does not reach the
  question.
\<close>

theorem same_slots_same_question:
  assumes "identify_slots U a = identify_slots U b"
  shows "get_ai_response U a = get_ai_response U b"
  using assms by (simp add: get_ai_response_def Let_def split: sum.splits prod.splits)

theorem same_slots_same_question_witness:
  "identify_slots latin1_db [] = identify_slots latin1_db (u ''hello'') \<and>
   retrieve_candidates latin1_db [] 3 = Inr [inception, parasite, the_avengers] \<and>
   build_dynamic_prompt latin1_db [] [] [inception, parasite, the_avengers] \<noteq>
     build_dynamic_prompt latin1_db (u ''hello'') [] [inception, parasite, the_avengers] \<and>
   get_ai_response latin1_db [] = get_ai_response latin1_db (u ''hello'')"
proof -
  have i: "identify_slots latin1_db [] = identify_slots latin1_db (u ''hello'')"
    by code_simp
  have r: "retrieve_candidates latin1_db [] 3 = Inr [inception, parasite, the_avengers]"
    by code_simp
  have "py_strip latin1_db [] \<noteq> py_strip latin1_db (u ''hello'')"
    by code_simp
  then have p: "build_dynamic_prompt latin1_db [] [] [inception, parasite, the_avengers] \<noteq>
     build_dynamic_prompt latin1_db (u ''hello'') [] [inception, parasite, the_avengers]"
    by (simp add: prompt_eq_iff)
  from same_slots_same_question [OF i] i r p show ?thesis by simp
qed

end
